theory Spec2Isabelle
  imports Complex_Main "HOL-Library.Word" "HOL-Library.Signed_Division" "HOL-Library.Sublist"
begin

section \<open>The host side of csrc/ops.cu\<close>

text \<open>
  The file ops.cu is the dispatch layer of the library: every routine computes a grid
  size from the element count, optionally clears accumulator cells with cudaMemset,
  launches one or two kernels and checks the runtime's status after each phase with the
  macro CUDA_CHECK_RETURN of the header. The kernel bodies and the CUDA runtime are not
  part of it; they are parameters of the model (the record \<open>runtime\<close>).
\<close>

subsection \<open>C integers\<close>

text \<open>
  A C \<open>int\<close> is a 32-bit word read in two's complement. Division truncates towards zero
  and the remainder takes the sign of the dividend. Division by zero and
  \<open>INT_MIN / -1\<close> are undefined; \<open>div_undefined\<close> says when.
\<close>

type_synonym c_int = "32 word"

definition int_div :: "c_int \<Rightarrow> c_int \<Rightarrow> c_int" where
  "int_div a b = word_of_int (sint a sdiv sint b)"

definition int_mod :: "c_int \<Rightarrow> c_int \<Rightarrow> c_int" where
  "int_mod a b = word_of_int (sint a smod sint b)"

definition div_undefined :: "c_int \<Rightarrow> c_int \<Rightarrow> bool" where
  "div_undefined a b \<longleftrightarrow> b = 0 \<or> (sint a = - (2 ^ 31) \<and> sint b = - 1)"

definition sizeof_float :: nat where
  "sizeof_float = 4"

subsection \<open>Template parameters\<close>

datatype elem_type = Half | Float

text \<open>
  The header declares \<open>ADAM = 0\<close> and \<open>MOMENTUM = 1\<close>. The template parameter
  OPTIMIZER is an \<open>int\<close>, so any other value can be written as well.
\<close>

definition ADAM :: int where
  "ADAM = 0"

definition MOMENTUM :: int where
  "MOMENTUM = 1"

text \<open>
  Modelled from the spec: the enumerators RMSPROP and ADAGRAD are used by ops.cu but are
  missing from the header at hand; the specification gives them "by extension" of the
  enumeration, that is as the next two values.
\<close>

definition RMSPROP :: int where
  "RMSPROP = 2"

definition ADAGRAD :: int where
  "ADAGRAD = 3"

subsection \<open>Kernels, launches and the trace of runtime calls\<close>

text \<open>A kernel is named with its template arguments, in the order of the source.\<close>

datatype kernel =
    kHistogramScatterAdd2D
  | kEstimateQuantiles elem_type
  | kQuantize
  | kDequantize
  | kQuantizeBlockwise elem_type int int int
  | kDequantizeBlockwise elem_type int int int
  | kPreconditionOptimizer32bit2State elem_type int int int
  | kOptimizer32bit2State elem_type int
  | kPreconditionOptimizer32bit1State elem_type int int int
  | kOptimizer32bit1State elem_type int
  | kPreconditionOptimizerStatic8bit2State elem_type int
  | kOptimizerStatic8bit2State elem_type int
  | kPreconditionOptimizerStatic8bit1State elem_type int
  | kOptimizerStatic8bit1State elem_type int
  | kOptimizerStatic8bit2StateBlockwise elem_type int int int
  | kOptimizerStatic8bit1StateBlockwise elem_type int int int
  | kPercentileClipping elem_type int int

text \<open>
  Device memory is a store of cells addressed by integers; a pointer is the address of a
  cell and \<open>p + i\<close> the address of the \<open>i\<close>-th cell after it. The type \<open>'v\<close> of the
  cell contents (and of the host's float arguments) is left open.
\<close>

datatype 'v arg =
    PtrArg int
  | IntArg c_int
  | FltArg 'v
  | BoolArg bool
  | NumericLimitsMax elem_type

datatype 'v event =
    Memset int nat
  | Launch kernel c_int int "'v arg list"
  | PeekAtLastError

type_synonym cudaError_t = nat

definition cudaSuccess :: cudaError_t where
  "cudaSuccess = 0"

record 'v world =
  mem :: "int \<Rightarrow> 'v"
  trace :: "'v event list"
  stderr :: string

text \<open>
  What the model takes from outside ops.cu: the status the runtime returns for a call
  (a function of all calls made so far, the current one last), the text of an error,
  what a kernel does to the device memory, and the value of \<open>__FILE__\<close>.
\<close>

record 'v runtime =
  status :: "'v event list \<Rightarrow> cudaError_t"
  cudaGetErrorString :: "cudaError_t \<Rightarrow> string"
  kernel_effect :: "kernel \<Rightarrow> c_int \<Rightarrow> int \<Rightarrow> 'v arg list \<Rightarrow> (int \<Rightarrow> 'v) \<Rightarrow> (int \<Rightarrow> 'v)"
  source_file :: string

text \<open>
  A routine returns to its caller, or the process ends with an exit status, or the
  behaviour is undefined.
\<close>

datatype 'v result =
    Returns "'v world"
  | Exits int "'v world"
  | Undefined_behaviour

type_synonym 'v stmt = "'v world \<Rightarrow> 'v result"

fun seq :: "'v stmt list \<Rightarrow> 'v stmt" where
  "seq [] w = Returns w"
| "seq (s # ss) w = (case s w of Returns w' \<Rightarrow> seq ss w' | r \<Rightarrow> r)"

subsection \<open>The runtime calls and the macro CUDA_CHECK_RETURN\<close>

definition zero_cells :: "int \<Rightarrow> nat \<Rightarrow> (int \<Rightarrow> 'v::zero) \<Rightarrow> (int \<Rightarrow> 'v)" where
  "zero_cells p k m = (\<lambda>a. if p \<le> a \<and> a < p + int k then 0 else m a)"

text \<open>
  \<open>cudaMemset devPtr 0 count\<close>: every call in ops.cu writes the byte 0, so the model has
  no value argument; \<open>count\<close> is in bytes. The cells are cleared when the runtime reports
  success; a failed call ends the process (below), so what it leaves is not observed.
\<close>

definition cudaMemset ::
  "'v runtime \<Rightarrow> int \<Rightarrow> nat \<Rightarrow> 'v::zero world \<Rightarrow> cudaError_t \<times> 'v world" where
  "cudaMemset rt devPtr count w =
     (let tr = trace w @ [Memset devPtr count];
          st = status rt tr
      in (st, w\<lparr>mem := (if st = cudaSuccess
                          then zero_cells devPtr (count div sizeof_float) (mem w)
                          else mem w),
                 trace := tr\<rparr>))"

definition cudaPeekAtLastError :: "'v runtime \<Rightarrow> 'v world \<Rightarrow> cudaError_t \<times> 'v world" where
  "cudaPeekAtLastError rt w =
     (let tr = trace w @ [PeekAtLastError] in (status rt tr, w\<lparr>trace := tr\<rparr>))"

text \<open>\<open>kernel<<<grid, threads>>>(args)\<close>: asynchronous, it returns no status.\<close>

definition launch ::
  "'v runtime \<Rightarrow> kernel \<Rightarrow> c_int \<Rightarrow> int \<Rightarrow> 'v arg list \<Rightarrow> 'v stmt" where
  "launch rt k grid threads args w =
     Returns (w\<lparr>mem := kernel_effect rt k grid threads args (mem w),
                trace := trace w @ [Launch k grid threads args]\<rparr>)"

text \<open>The conversion \<open>%d\<close> of a line number.\<close>

fun decimal :: "nat \<Rightarrow> string" where
  "decimal n =
     (if n < 10 then [''0123456789'' ! n]
      else decimal (n div 10) @ [''0123456789'' ! (n mod 10)])"

declare decimal.simps [simp del]

definition error_message :: "'v runtime \<Rightarrow> cudaError_t \<Rightarrow> nat \<Rightarrow> string" where
  "error_message rt st line =
     ''Error '' @ cudaGetErrorString rt st @ '' at line '' @ decimal line
       @ '' in file '' @ source_file rt @ [CHR 0x0A]"

text \<open>
  \<open>CUDA_CHECK_RETURN(value)\<close>, used on source line \<open>line\<close>: evaluate the call, and if its
  status is not cudaSuccess print the message to stderr and \<open>exit(1)\<close>.
\<close>

definition CUDA_CHECK_RETURN ::
  "'v runtime \<Rightarrow> nat \<Rightarrow> ('v world \<Rightarrow> cudaError_t \<times> 'v world) \<Rightarrow> 'v stmt" where
  "CUDA_CHECK_RETURN rt line call w =
     (case call w of
        (m_cudaStat, w') \<Rightarrow>
          if m_cudaStat \<noteq> cudaSuccess
          then Exits 1 (w'\<lparr>stderr := stderr w' @ error_message rt m_cudaStat line\<rparr>)
          else Returns w')"

subsection \<open>The routines\<close>

definition histogramScatterAdd2D ::
  "'v runtime \<Rightarrow> int \<Rightarrow> int \<Rightarrow> int \<Rightarrow> int \<Rightarrow> c_int \<Rightarrow> c_int \<Rightarrow> 'v stmt" where
  "histogramScatterAdd2D rt histogram index1 index2 src maxidx1 n =
     (let threads = 512;
          blocks = int_div n threads;
          blocks = (if int_mod n threads = 0 then blocks else blocks + 1)
      in seq [launch rt kHistogramScatterAdd2D blocks 512
                [PtrArg histogram, PtrArg index1, PtrArg index2, PtrArg src, IntArg maxidx1, IntArg n],
              CUDA_CHECK_RETURN rt 24 (cudaPeekAtLastError rt)])"

definition estimateQuantiles ::
  "'v::zero runtime \<Rightarrow> elem_type \<Rightarrow> int \<Rightarrow> int \<Rightarrow> 'v \<Rightarrow> c_int \<Rightarrow> 'v stmt" where
  "estimateQuantiles rt T A code offset n =
     (let blocks = int_div n 4096;
          blocks = (if int_mod n 4096 = 0 then blocks else blocks + 1)
      in seq [CUDA_CHECK_RETURN rt 31 (cudaMemset rt code (256 * sizeof_float)),
              launch rt (kEstimateQuantiles T) blocks 512
                [PtrArg A, PtrArg code, FltArg offset, NumericLimitsMax T, IntArg n],
              CUDA_CHECK_RETURN rt 33 (cudaPeekAtLastError rt)])"

definition quantize :: "'v runtime \<Rightarrow> int \<Rightarrow> int \<Rightarrow> int \<Rightarrow> c_int \<Rightarrow> 'v stmt" where
  "quantize rt code A out n =
     (let blocks = int_div n 1024;
          blocks = (if int_mod n 1024 = 0 then blocks else blocks + 1)
      in seq [launch rt kQuantize blocks 1024 [PtrArg code, PtrArg A, PtrArg out, IntArg n],
              CUDA_CHECK_RETURN rt 41 (cudaPeekAtLastError rt)])"

definition dequantize :: "'v runtime \<Rightarrow> int \<Rightarrow> int \<Rightarrow> int \<Rightarrow> c_int \<Rightarrow> 'v stmt" where
  "dequantize rt code A out n =
     (let blocks = int_div n 1024;
          blocks = (if int_mod n 1024 = 0 then blocks else blocks + 1)
      in seq [launch rt kDequantize blocks 1024 [PtrArg code, PtrArg A, PtrArg out, IntArg n],
              CUDA_CHECK_RETURN rt 49 (cudaPeekAtLastError rt)])"

definition quantizeBlockwise ::
  "'v runtime \<Rightarrow> elem_type \<Rightarrow> int \<Rightarrow> int \<Rightarrow> int \<Rightarrow> int \<Rightarrow> int \<Rightarrow> int \<Rightarrow> c_int \<Rightarrow> c_int
     \<Rightarrow> 'v stmt" where
  "quantizeBlockwise rt T STOCHASTIC code A absmax out rand rand_offset n =
     (let blocks = int_div n 4096;
          blocks = (if int_mod n 4096 = 0 then blocks else blocks + 1)
      in seq [launch rt (kQuantizeBlockwise T 4096 4 STOCHASTIC) blocks 1024
                [PtrArg code, PtrArg A, PtrArg absmax, PtrArg out, PtrArg rand, IntArg rand_offset, IntArg n],
              CUDA_CHECK_RETURN rt 57 (cudaPeekAtLastError rt)])"

text \<open>
  \<open>n / blocksize\<close> is evaluated before \<open>blocksize\<close> is looked at; a launch happens for
  4096 and for 2048 only, the check in every case.
\<close>

definition dequantizeBlockwise ::
  "'v runtime \<Rightarrow> elem_type \<Rightarrow> int \<Rightarrow> int \<Rightarrow> int \<Rightarrow> int \<Rightarrow> c_int \<Rightarrow> c_int \<Rightarrow> 'v stmt" where
  "dequantizeBlockwise rt T code A absmax out blocksize n =
     (if div_undefined n blocksize then (\<lambda>w. Undefined_behaviour)
      else
        let blocks = int_div n blocksize;
            blocks = (if int_mod n blocksize = 0 then blocks else blocks + 1)
        in seq ((if blocksize = 4096
                 then [launch rt (kDequantizeBlockwise T 4096 1024 4) blocks (4096 div 4)
                         [PtrArg code, PtrArg A, PtrArg absmax, PtrArg out, IntArg n]]
                 else if blocksize = 2048
                 then [launch rt (kDequantizeBlockwise T 2048 512 4) blocks (2048 div 4)
                         [PtrArg code, PtrArg A, PtrArg absmax, PtrArg out, IntArg n]]
                 else [])
                @ [CUDA_CHECK_RETURN rt 68 (cudaPeekAtLastError rt)]))"

definition optimizer32bit ::
  "'v::{zero,ord} runtime \<Rightarrow> elem_type \<Rightarrow> int \<Rightarrow> int \<Rightarrow> int \<Rightarrow> int \<Rightarrow> int \<Rightarrow> int \<Rightarrow> 'v \<Rightarrow> 'v
     \<Rightarrow> 'v \<Rightarrow> 'v \<Rightarrow> 'v \<Rightarrow> 'v \<Rightarrow> c_int \<Rightarrow> 'v \<Rightarrow> 'v \<Rightarrow> bool \<Rightarrow> c_int \<Rightarrow> 'v stmt" where
  "optimizer32bit rt T OPTIMIZER g p state1 state2 unorm max_unorm param_norm
       beta1 beta2 eps weight_decay step lr gnorm_scale skip_zeros n =
     (let blocks = int_div n 4096;
          blocks = (if int_mod n 4096 = 0 then blocks else blocks + 1)
      in if OPTIMIZER = ADAM then
           seq ((if 0 < max_unorm
                 then [CUDA_CHECK_RETURN rt 83 (cudaMemset rt unorm (1 * sizeof_float)),
                       launch rt (kPreconditionOptimizer32bit2State T OPTIMIZER 4096 8) blocks 512
                         [PtrArg g, PtrArg p, PtrArg state1, PtrArg state2, PtrArg unorm, FltArg beta1, FltArg beta2,
                          FltArg eps, FltArg weight_decay, IntArg step, FltArg lr, FltArg gnorm_scale, IntArg n],
                       CUDA_CHECK_RETURN rt 85 (cudaPeekAtLastError rt)]
                 else [])
                @ [launch rt (kOptimizer32bit2State T OPTIMIZER) blocks 1024
                     [PtrArg g, PtrArg p, PtrArg state1, PtrArg state2, PtrArg unorm, FltArg max_unorm,
                      FltArg param_norm, FltArg beta1, FltArg beta2, FltArg eps, FltArg weight_decay, IntArg step,
                      FltArg lr, FltArg gnorm_scale, BoolArg skip_zeros, IntArg n],
                   CUDA_CHECK_RETURN rt 88 (cudaPeekAtLastError rt)])
         else if OPTIMIZER = MOMENTUM \<or> OPTIMIZER = RMSPROP \<or> OPTIMIZER = ADAGRAD then
           seq ((if 0 < max_unorm
                 then [CUDA_CHECK_RETURN rt 96 (cudaMemset rt unorm (1 * sizeof_float)),
                       launch rt (kPreconditionOptimizer32bit1State T OPTIMIZER 4096 8) blocks 512
                         [PtrArg g, PtrArg p, PtrArg state1, PtrArg unorm, FltArg beta1, FltArg eps,
                          FltArg weight_decay, IntArg step, FltArg lr, FltArg gnorm_scale, IntArg n],
                       CUDA_CHECK_RETURN rt 98 (cudaPeekAtLastError rt)]
                 else [])
                @ [launch rt (kOptimizer32bit1State T OPTIMIZER) blocks 1024
                     [PtrArg g, PtrArg p, PtrArg state1, PtrArg unorm, FltArg max_unorm, FltArg param_norm,
                      FltArg beta1, FltArg eps, FltArg weight_decay, IntArg step, FltArg lr, FltArg gnorm_scale,
                      BoolArg skip_zeros, IntArg n],
                   CUDA_CHECK_RETURN rt 102 (cudaPeekAtLastError rt)])
         else seq [])"

definition optimizerStatic8bit ::
  "'v::{zero,ord} runtime \<Rightarrow> elem_type \<Rightarrow> int \<Rightarrow> int \<Rightarrow> int \<Rightarrow> int \<Rightarrow> int \<Rightarrow> int \<Rightarrow> 'v \<Rightarrow> 'v
     \<Rightarrow> 'v \<Rightarrow> 'v \<Rightarrow> 'v \<Rightarrow> c_int \<Rightarrow> 'v \<Rightarrow> int \<Rightarrow> int \<Rightarrow> int \<Rightarrow> int \<Rightarrow> int \<Rightarrow> int \<Rightarrow> 'v \<Rightarrow> 'v
     \<Rightarrow> c_int \<Rightarrow> 'v stmt" where
  "optimizerStatic8bit rt T OPTIMIZER p g state1 state2 unorm max_unorm param_norm
       beta1 beta2 eps step lr quantiles1 quantiles2 max1 max2 new_max1 new_max2
       weight_decay gnorm_scale n =
     (let blocks = int_div n 4096;
          blocks = (if int_mod n 4096 = 0 then blocks else blocks + 1)
      in seq ((if 0 < max_unorm
               then [CUDA_CHECK_RETURN rt 120 (cudaMemset rt unorm (1 * sizeof_float))]
               else [])
              @ (if OPTIMIZER = ADAM then
                   [CUDA_CHECK_RETURN rt 125 (cudaMemset rt new_max1 (1 * sizeof_float)),
                    CUDA_CHECK_RETURN rt 126 (cudaMemset rt new_max2 (1 * sizeof_float)),
                    launch rt (kPreconditionOptimizerStatic8bit2State T OPTIMIZER) blocks 256
                      [PtrArg p, PtrArg g, PtrArg state1, PtrArg state2, PtrArg unorm, FltArg beta1, FltArg beta2,
                       FltArg eps, IntArg step, PtrArg quantiles1, PtrArg quantiles2, PtrArg max1, PtrArg max2,
                       PtrArg new_max1, PtrArg new_max2, FltArg gnorm_scale, IntArg n],
                    CUDA_CHECK_RETURN rt 128 (cudaPeekAtLastError rt),
                    launch rt (kOptimizerStatic8bit2State T OPTIMIZER) blocks 1024
                      [PtrArg p, PtrArg g, PtrArg state1, PtrArg state2, PtrArg unorm, FltArg max_unorm,
                       FltArg param_norm, FltArg beta1, FltArg beta2, FltArg eps, IntArg step, FltArg lr,
                       PtrArg quantiles1, PtrArg quantiles2, PtrArg max1, PtrArg max2, PtrArg new_max1,
                       PtrArg new_max2, FltArg weight_decay, FltArg gnorm_scale, IntArg n],
                    CUDA_CHECK_RETURN rt 131 (cudaPeekAtLastError rt)]
                 else if OPTIMIZER = MOMENTUM \<or> OPTIMIZER = RMSPROP \<or> OPTIMIZER = ADAGRAD then
                   [CUDA_CHECK_RETURN rt 136 (cudaMemset rt new_max1 (1 * sizeof_float)),
                    launch rt (kPreconditionOptimizerStatic8bit1State T OPTIMIZER) blocks 256
                      [PtrArg p, PtrArg g, PtrArg state1, PtrArg unorm, FltArg beta1, FltArg eps, IntArg step,
                       PtrArg quantiles1, PtrArg max1, PtrArg new_max1, FltArg weight_decay,
                       FltArg gnorm_scale, IntArg n],
                    CUDA_CHECK_RETURN rt 138 (cudaPeekAtLastError rt),
                    launch rt (kOptimizerStatic8bit1State T OPTIMIZER) blocks 1024
                      [PtrArg p, PtrArg g, PtrArg state1, PtrArg unorm, FltArg max_unorm, FltArg param_norm,
                       FltArg beta1, FltArg eps, IntArg step, FltArg lr, PtrArg quantiles1, PtrArg max1,
                       PtrArg new_max1, FltArg weight_decay, FltArg gnorm_scale, IntArg n],
                    CUDA_CHECK_RETURN rt 141 (cudaPeekAtLastError rt)]
                 else [])))"

definition BLOCKSIZE_2STATE :: int where
  "BLOCKSIZE_2STATE = 2048"

definition NUM_2STATE :: int where
  "NUM_2STATE = 8"

definition BLOCKSIZE_1STATE :: int where
  "BLOCKSIZE_1STATE = 2048"

definition NUM_1STATE :: int where
  "NUM_1STATE = 8"

definition optimizerStatic8bitBlockwise ::
  "'v runtime \<Rightarrow> elem_type \<Rightarrow> int \<Rightarrow> int \<Rightarrow> int \<Rightarrow> int \<Rightarrow> int \<Rightarrow> 'v \<Rightarrow> 'v \<Rightarrow> 'v \<Rightarrow> c_int \<Rightarrow> 'v
     \<Rightarrow> int \<Rightarrow> int \<Rightarrow> int \<Rightarrow> int \<Rightarrow> 'v \<Rightarrow> 'v \<Rightarrow> bool \<Rightarrow> c_int \<Rightarrow> 'v stmt" where
  "optimizerStatic8bitBlockwise rt T OPTIMIZER p g state1 state2 beta1 beta2 eps step lr
       quantiles1 quantiles2 absmax1 absmax2 weight_decay gnorm_scale skip_zeros n =
     (if OPTIMIZER = ADAM then
        let blocks = int_div n (word_of_int BLOCKSIZE_2STATE);
            blocks = (if int_mod n (word_of_int BLOCKSIZE_2STATE) = 0 then blocks else blocks + 1)
        in seq [launch rt
                  (kOptimizerStatic8bit2StateBlockwise T OPTIMIZER BLOCKSIZE_2STATE NUM_2STATE)
                  blocks (BLOCKSIZE_2STATE div NUM_2STATE)
                  [PtrArg p, PtrArg g, PtrArg state1, PtrArg state2, FltArg beta1, FltArg beta2, FltArg eps, IntArg step,
                   FltArg lr, PtrArg quantiles1, PtrArg quantiles2, PtrArg absmax1, PtrArg absmax2,
                   FltArg weight_decay, FltArg gnorm_scale, BoolArg skip_zeros, IntArg n],
                CUDA_CHECK_RETURN rt 166 (cudaPeekAtLastError rt)]
      else if OPTIMIZER = MOMENTUM \<or> OPTIMIZER = RMSPROP \<or> OPTIMIZER = ADAGRAD then
        let blocks = int_div n (word_of_int BLOCKSIZE_1STATE);
            blocks = (if int_mod n (word_of_int BLOCKSIZE_1STATE) = 0 then blocks else blocks + 1)
        in seq [launch rt
                  (kOptimizerStatic8bit1StateBlockwise T OPTIMIZER BLOCKSIZE_1STATE NUM_1STATE)
                  blocks (BLOCKSIZE_1STATE div NUM_1STATE)
                  [PtrArg p, PtrArg g, PtrArg state1, FltArg beta1, FltArg beta2, FltArg eps, IntArg step, FltArg lr,
                   PtrArg quantiles1, PtrArg absmax1, FltArg weight_decay, FltArg gnorm_scale,
                   BoolArg skip_zeros, IntArg n],
                CUDA_CHECK_RETURN rt 175 (cudaPeekAtLastError rt)]
      else seq [])"

definition percentileClipping ::
  "'v::zero runtime \<Rightarrow> elem_type \<Rightarrow> int \<Rightarrow> int \<Rightarrow> c_int \<Rightarrow> c_int \<Rightarrow> 'v stmt" where
  "percentileClipping rt T g gnorm_vec step n =
     (let blocks = int_div n 2048;
          blocks = (if int_mod n 2048 = 0 then blocks else blocks + 1)
      in seq [CUDA_CHECK_RETURN rt 186
                (cudaMemset rt (gnorm_vec + sint (int_mod step 100)) (1 * sizeof_float)),
              launch rt (kPercentileClipping T 2048 4) blocks 512
                [PtrArg g, PtrArg gnorm_vec, IntArg step, IntArg n],
              CUDA_CHECK_RETURN rt 188 (cudaPeekAtLastError rt)])"

subsection \<open>The explicit instantiations at the end of ops.cu\<close>

definition optimizer32bit_instantiations :: "(int \<times> elem_type) list" where
  "optimizer32bit_instantiations =
     [(ADAM, Half), (ADAM, Float), (MOMENTUM, Half), (MOMENTUM, Float),
      (RMSPROP, Half), (RMSPROP, Float), (ADAGRAD, Half), (ADAGRAD, Float)]"

definition optimizerStatic8bit_instantiations :: "(int \<times> elem_type) list" where
  "optimizerStatic8bit_instantiations =
     [(ADAM, Half), (ADAM, Float), (MOMENTUM, Half), (MOMENTUM, Float),
      (RMSPROP, Half), (RMSPROP, Float)]"

definition optimizerStatic8bitBlockwise_instantiations :: "(elem_type \<times> int) list" where
  "optimizerStatic8bitBlockwise_instantiations =
     [(Half, ADAM), (Float, ADAM), (Half, MOMENTUM), (Float, MOMENTUM),
      (Half, RMSPROP), (Float, RMSPROP), (Half, ADAGRAD), (Float, ADAGRAD)]"

subsection \<open>Observing a call\<close>

text \<open>
  The runtime calls a routine has made are the part of the trace it has added. A call
  returns, or it ends the process with some exit status; a runtime is healthy when every
  call to it reports cudaSuccess.
\<close>

definition issued :: "'v world \<Rightarrow> 'v result \<Rightarrow> 'v event list" where
  "issued w r =
     (case r of
        Returns w' \<Rightarrow> drop (length (trace w)) (trace w')
      | Exits c w' \<Rightarrow> drop (length (trace w)) (trace w')
      | Undefined_behaviour \<Rightarrow> [])"

definition returns :: "'v result \<Rightarrow> bool" where
  "returns r \<longleftrightarrow> (case r of Returns w' \<Rightarrow> True | _ \<Rightarrow> False)"

definition exits_with :: "int \<Rightarrow> 'v result \<Rightarrow> bool" where
  "exits_with c r \<longleftrightarrow> (case r of Exits c' w' \<Rightarrow> c' = c | _ \<Rightarrow> False)"

definition healthy :: "'v runtime \<Rightarrow> bool" where
  "healthy rt \<longleftrightarrow> (\<forall>tr. status rt tr = cudaSuccess)"

text \<open>
  The statuses the runtime has handed out for a list of calls made after the calls
  \<open>before\<close>: one for each cudaMemset and each cudaPeekAtLastError, none for a launch.
\<close>

fun statuses :: "'v runtime \<Rightarrow> 'v event list \<Rightarrow> 'v event list \<Rightarrow> cudaError_t list" where
  "statuses rt before [] = []"
| "statuses rt before (Launch k grid threads args # es) =
     statuses rt (before @ [Launch k grid threads args]) es"
| "statuses rt before (e # es) = status rt (before @ [e]) # statuses rt (before @ [e]) es"

text \<open>The value of \<open>blocks\<close> after the two lines that open every routine.\<close>

definition num_blocks :: "c_int \<Rightarrow> c_int \<Rightarrow> c_int" where
  "num_blocks n d = (if int_mod n d = 0 then int_div n d else int_div n d + 1)"

text \<open>
  The body of every routine is a straight line of three kinds of statement: a checked
  cudaMemset, a launch, and a checked cudaPeekAtLastError. The proofs read a routine as
  such a list.
\<close>

datatype 'v op =
    Clear nat int nat
  | Run kernel c_int int "'v arg list"
  | Check nat

fun stmt_of :: "'v::zero runtime \<Rightarrow> 'v op \<Rightarrow> 'v stmt" where
  "stmt_of rt (Clear line p count) = CUDA_CHECK_RETURN rt line (cudaMemset rt p count)"
| "stmt_of rt (Run k grid threads args) = launch rt k grid threads args"
| "stmt_of rt (Check line) = CUDA_CHECK_RETURN rt line (cudaPeekAtLastError rt)"

fun event_of :: "'v op \<Rightarrow> 'v event" where
  "event_of (Clear line p count) = Memset p count"
| "event_of (Run k grid threads args) = Launch k grid threads args"
| "event_of (Check line) = PeekAtLastError"

fun mem_effect :: "'v::zero runtime \<Rightarrow> 'v op \<Rightarrow> (int \<Rightarrow> 'v) \<Rightarrow> (int \<Rightarrow> 'v)" where
  "mem_effect rt (Clear line p count) m = zero_cells p (count div sizeof_float) m"
| "mem_effect rt (Run k grid threads args) m = kernel_effect rt k grid threads args m"
| "mem_effect rt (Check line) m = m"

fun checked_line :: "'v op \<Rightarrow> nat option" where
  "checked_line (Clear line p count) = Some line"
| "checked_line (Run k grid threads args) = None"
| "checked_line (Check line) = Some line"

text \<open>The statements that clear cells come first in every routine that has any.\<close>

fun is_clear :: "'v op \<Rightarrow> bool" where
  "is_clear (Clear line p count) = True"
| "is_clear _ = False"





text \<open>The launches in a trace and their grid sizes.\<close>

fun is_launch :: "'v event \<Rightarrow> bool" where
  "is_launch (Launch k grid threads args) = True"
| "is_launch _ = False"

fun grids :: "'v event list \<Rightarrow> c_int list" where
  "grids [] = []"
| "grids (Launch k grid threads args # es) = grid # grids es"
| "grids (e # es) = grids es"

text \<open>The last runtime call of the list is a cudaMemset.\<close>

definition ended_at_memset :: "'v event list \<Rightarrow> bool" where
  "ended_at_memset es \<longleftrightarrow> (case rev es of Memset p count # _ \<Rightarrow> True | _ \<Rightarrow> False)"

text \<open>
  The work-groups of a call over \<open>n\<close> elements, \<open>E\<close> to a work-group, of a routine with \<open>k\<close>
  launches. Every launch made has \<open>\<lceil>n / E\<rceil>\<close> work-groups, which is none at all when
  \<open>n = 0\<close>; a call that returns has made \<open>k\<close> launches; a call has made a launch unless it
  was ended by the failure of a cudaMemset; the call returns or ends the process with
  status 1, and it returns when the runtime is healthy.
\<close>

definition grid_is_ceiling ::
  "nat \<Rightarrow> c_int \<Rightarrow> int \<Rightarrow> 'v runtime \<Rightarrow> 'v world \<Rightarrow> 'v result \<Rightarrow> bool" where
  "grid_is_ceiling k n E rt w r \<longleftrightarrow>
     (\<forall>b \<in> set (grids (issued w r)). sint b = \<lceil>real_of_int (sint n) / real_of_int E\<rceil>)
     \<and> (n = 0 \<longrightarrow> (\<forall>b \<in> set (grids (issued w r)). b = 0))
     \<and> (returns r \<longrightarrow> length (grids (issued w r)) = k)
     \<and> (grids (issued w r) = [] \<longrightarrow> ended_at_memset (issued w r))
     \<and> (returns r \<or> exits_with 1 r)
     \<and> (healthy rt \<longrightarrow> returns r)"

text \<open>A launch over an empty grid runs no work-group, so it changes nothing.\<close>

definition empty_grid_noop :: "'v runtime \<Rightarrow> bool" where
  "empty_grid_noop rt \<longleftrightarrow> (\<forall>k threads args m. kernel_effect rt k 0 threads args m = m)"

text \<open>
  A call with no elements of a routine with \<open>k\<close> launches, where \<open>cleared\<close> is the memory
  with the cells of the routine's cudaMemset calls set to zero. A call that returns
  leaves that memory and has made \<open>k\<close> launches, each over an empty grid. A call that ends
  the process does so with status 1: either at a cudaMemset that failed, before any
  launch, or at a check after a launch, and then the memory at the exit is \<open>cleared\<close> too
  and every launch made had an empty grid. The call returns when the runtime is healthy.
\<close>

definition clears_on_empty ::
  "nat \<Rightarrow> (int \<Rightarrow> 'v) \<Rightarrow> 'v runtime \<Rightarrow> 'v world \<Rightarrow> 'v result \<Rightarrow> bool" where
  "clears_on_empty k cleared rt w r \<longleftrightarrow>
     (case r of
        Returns w' \<Rightarrow> mem w' = cleared \<and> grids (issued w r) = replicate k 0
      | Exits c w' \<Rightarrow>
          c = 1 \<and> (ended_at_memset (issued w r) \<and> grids (issued w r) = []
                   \<or> mem w' = cleared \<and> grids (issued w r) \<noteq> []
                      \<and> set (grids (issued w r)) \<subseteq> {0})
      | Undefined_behaviour \<Rightarrow> False)
     \<and> (healthy rt \<longrightarrow> returns r)"

text \<open>Every launch in the trace is followed at once by cudaPeekAtLastError.\<close>

fun launch_checked :: "'v event list \<Rightarrow> bool" where
  "launch_checked [] = True"
| "launch_checked (Launch k grid threads args # PeekAtLastError # es) = launch_checked es"
| "launch_checked (Launch k grid threads args # es) = False"
| "launch_checked (e # es) = launch_checked es"

text \<open>The source lines of ops.cu on which CUDA_CHECK_RETURN is used.\<close>

definition check_lines :: "nat set" where
  "check_lines = {24, 31, 33, 41, 49, 57, 68, 83, 85, 88, 96, 98, 102, 120, 125, 126, 128, 131,
                  136, 138, 141, 166, 175, 186, 188}"

text \<open>
  The error policy of a routine, from any world: every launch it has made is followed by
  a check; if it returns, nothing was printed and every status it saw was cudaSuccess; if
  it does not return, the process exits with status 1, the last status it saw is the
  first failure, and stderr has grown by the message for that status with the line of a
  check of ops.cu.
\<close>

definition fatal_on_failure :: "'v runtime \<Rightarrow> 'v stmt \<Rightarrow> bool" where
  "fatal_on_failure rt s \<longleftrightarrow>
     (\<forall>w. let r = s w; calls = issued w r; sts = statuses rt (trace w) calls
          in launch_checked calls
             \<and> (case r of
                  Returns w' \<Rightarrow> stderr w' = stderr w \<and> (\<forall>st \<in> set sts. st = cudaSuccess)
                | Exits c w' \<Rightarrow>
                    c = 1 \<and> sts \<noteq> [] \<and> last sts \<noteq> cudaSuccess
                    \<and> (\<forall>st \<in> set (butlast sts). st = cudaSuccess)
                    \<and> (\<exists>line \<in> check_lines.
                          stderr w' = stderr w @ error_message rt (last sts) line)
                | Undefined_behaviour \<Rightarrow> False))"

subsection \<open>The kernel of percentileClipping\<close>






subsection \<open>The kernels of blockwise quantization\<close>

text \<open>
  The bodies of kQuantizeBlockwise and kDequantizeBlockwise are not in ops.cu; this
  subsection models them from the specification, over the real numbers. A byte is stored
  in a cell as its number, and every read is from the memory before the launch.
\<close>



text \<open>
  Modelled from the spec: the absmax of block \<open>b\<close>, "the maximum absolute magnitude of
  elements in that block", the last block ending with the buffer (part of the missing
  kQuantizeBlockwise).
\<close>

definition block_absmax :: "(int \<Rightarrow> real) \<Rightarrow> int \<Rightarrow> nat \<Rightarrow> c_int \<Rightarrow> nat \<Rightarrow> real" where
  "block_absmax m A B n b =
     fold max (map (\<lambda>i. \<bar>m (A + int i)\<bar>) [b * B ..< min (nat (sint n)) ((b + 1) * B)]) 0"








definition mem_after :: "'v result \<Rightarrow> int \<Rightarrow> 'v option" where
  "mem_after r a = (case r of Returns w' \<Rightarrow> Some (mem w' a) | _ \<Rightarrow> None)"

subsection \<open>A runtime and a world to run the routines on\<close>

text \<open>
  \<open>quiet_runtime\<close> never fails and its kernels leave the memory alone; \<open>failing_runtime\<close>
  reports error 9 for every call; \<open>strict_runtime\<close> reports error 9 for the check after a
  launch over an empty grid, and success otherwise.
\<close>

definition quiet_runtime :: "real runtime" where
  "quiet_runtime =
     \<lparr>status = (\<lambda>tr. cudaSuccess),
      cudaGetErrorString = (\<lambda>e. ''invalid configuration argument''),
      kernel_effect = (\<lambda>k grid threads args m. m),
      source_file = ''ops.cu''\<rparr>"

definition failing_runtime :: "real runtime" where
  "failing_runtime = quiet_runtime\<lparr>status := (\<lambda>tr. 9)\<rparr>"

definition strict_runtime :: "real runtime" where
  "strict_runtime =
     quiet_runtime\<lparr>status :=
       (\<lambda>tr. case rev tr of
                PeekAtLastError # Launch k grid threads args # _ \<Rightarrow>
                  if grid = 0 then 9 else cudaSuccess
              | _ \<Rightarrow> cudaSuccess)\<rparr>"

definition sevens :: "real world" where
  "sevens = \<lparr>mem = (\<lambda>a. 7), trace = [], stderr = []\<rparr>"









section \<open>Properties\<close>

subsection \<open>Statements one at a time, and in sequence\<close>

lemma stmt_of_Returns:
  assumes "stmt_of rt op w = Returns w'"
  shows "w' = w\<lparr>mem := mem_effect rt op (mem w), trace := trace w @ [event_of op]\<rparr>"
    and "checked_line op \<noteq> None \<longrightarrow> status rt (trace w @ [event_of op]) = cudaSuccess"
  using assms
  by (cases op; simp add: CUDA_CHECK_RETURN_def cudaMemset_def cudaPeekAtLastError_def
        launch_def Let_def split: if_splits)+

lemma stmt_of_Exits:
  assumes "stmt_of rt op w = Exits c w'"
  shows "c = 1"
    and "\<exists>line. checked_line op = Some line
           \<and> stderr w' = stderr w @ error_message rt (status rt (trace w @ [event_of op])) line"
    and "trace w' = trace w @ [event_of op]"
    and "status rt (trace w @ [event_of op]) \<noteq> cudaSuccess"
  using assms
  by (cases op; simp add: CUDA_CHECK_RETURN_def cudaMemset_def cudaPeekAtLastError_def
        launch_def Let_def split: if_splits; fastforce)+

lemma stmt_of_defined: "stmt_of rt op w \<noteq> Undefined_behaviour"
  by (cases op; simp add: CUDA_CHECK_RETURN_def cudaMemset_def cudaPeekAtLastError_def
        launch_def Let_def split: if_splits)

lemma stmt_of_healthy:
  assumes "healthy rt"
  shows "\<exists>w'. stmt_of rt op w = Returns w'"
  using assms
  by (cases op; simp add: CUDA_CHECK_RETURN_def cudaMemset_def cudaPeekAtLastError_def
        launch_def Let_def healthy_def)

lemma statuses_append:
  "statuses rt before (es @ fs) = statuses rt before es @ statuses rt (before @ es) fs"
proof (induction es arbitrary: before)
  case Nil
  then show ?case by simp
next
  case (Cons e es)
  then show ?case by (cases e) simp_all
qed

lemma statuses_event_of:
  "statuses rt before [event_of op] =
     (case checked_line op of None \<Rightarrow> [] | Some line \<Rightarrow> [status rt (before @ [event_of op])])"
  by (cases op) simp_all

lemma seq_Returns:
  assumes "seq (map (stmt_of rt) ops) w = Returns w'"
  shows "w' = w\<lparr>mem := fold (mem_effect rt) ops (mem w), trace := trace w @ map event_of ops\<rparr>
         \<and> (\<forall>st \<in> set (statuses rt (trace w) (map event_of ops)). st = cudaSuccess)"
  using assms
proof (induction ops arbitrary: w)
  case Nil
  then show ?case by simp
next
  case (Cons op ops)
  from Cons.prems obtain w1 where s1: "stmt_of rt op w = Returns w1"
    and rest: "seq (map (stmt_of rt) ops) w1 = Returns w'"
    by (auto split: result.splits)
  note h = stmt_of_Returns [OF s1]
  from Cons.IH [OF rest] h show ?case
    by (cases op) simp_all
qed

lemma seq_Exits:
  assumes "seq (map (stmt_of rt) ops) w = Exits c w'"
  shows "c = 1 \<and> (\<exists>k line. k < length ops \<and> checked_line (ops ! k) = Some line
           \<and> trace w' = trace w @ map event_of (take (Suc k) ops)
           \<and> (\<forall>st \<in> set (statuses rt (trace w) (map event_of (take k ops))). st = cudaSuccess)
           \<and> status rt (trace w') \<noteq> cudaSuccess
           \<and> stderr w' = stderr w @ error_message rt (status rt (trace w')) line)"
  using assms
proof (induction ops arbitrary: w)
  case Nil
  then show ?case by simp
next
  case (Cons op ops)
  show ?case
  proof (cases "stmt_of rt op w")
    case (Returns w1)
    with Cons.prems have rest: "seq (map (stmt_of rt) ops) w1 = Exits c w'" by simp
    from Cons.IH [OF rest] obtain k line where k: "k < length ops"
      "checked_line (ops ! k) = Some line"
      "trace w' = trace w1 @ map event_of (take (Suc k) ops)"
      "\<forall>st \<in> set (statuses rt (trace w1) (map event_of (take k ops))). st = cudaSuccess"
      "status rt (trace w') \<noteq> cudaSuccess"
      "stderr w' = stderr w1 @ error_message rt (status rt (trace w')) line" and c: "c = 1"
      by blast
    from stmt_of_Returns [OF Returns] have w1: "trace w1 = trace w @ [event_of op]"
      "stderr w1 = stderr w"
      "checked_line op \<noteq> None \<longrightarrow> status rt (trace w @ [event_of op]) = cudaSuccess"
      by simp_all
    have "Suc k < length (op # ops)" using k(1) by simp
    moreover have "checked_line ((op # ops) ! Suc k) = Some line" using k(2) by simp
    moreover have "trace w' = trace w @ map event_of (take (Suc (Suc k)) (op # ops))"
      using k(3) w1 by simp
    moreover have "stderr w' = stderr w @ error_message rt (status rt (trace w')) line"
      using k(6) w1 by simp
    moreover have "\<forall>st \<in> set (statuses rt (trace w) (map event_of (take (Suc k) (op # ops)))).
                     st = cudaSuccess"
    proof -
      have "statuses rt (trace w) (map event_of (take (Suc k) (op # ops)))
              = statuses rt (trace w) [event_of op]
                @ statuses rt (trace w1) (map event_of (take k ops))"
        using statuses_append [of rt "trace w" "[event_of op]" "map event_of (take k ops)"] w1(1)
        by simp
      then show ?thesis using k(4) w1(3) by (auto simp: statuses_event_of split: option.splits)
    qed
    ultimately show ?thesis using c k(5) by blast
  next
    case (Exits c1 w1)
    with Cons.prems have eq: "c1 = c" "w1 = w'" by simp_all
    from stmt_of_Exits [OF Exits] eq obtain line where "c = 1" "checked_line op = Some line"
      "stderr w' = stderr w @ error_message rt (status rt (trace w @ [event_of op])) line"
      "trace w' = trace w @ [event_of op]" "status rt (trace w @ [event_of op]) \<noteq> cudaSuccess"
      by auto
    then have "c = 1 \<and> 0 < length (op # ops) \<and> checked_line ((op # ops) ! 0) = Some line
           \<and> trace w' = trace w @ map event_of (take (Suc 0) (op # ops))
           \<and> (\<forall>st \<in> set (statuses rt (trace w) (map event_of (take 0 (op # ops)))). st = cudaSuccess)
           \<and> status rt (trace w') \<noteq> cudaSuccess
           \<and> stderr w' = stderr w @ error_message rt (status rt (trace w')) line"
      by simp
    then show ?thesis by blast
  next
    case Undefined_behaviour
    then show ?thesis using stmt_of_defined by blast
  qed
qed

lemma seq_defined: "seq (map (stmt_of rt) ops) w \<noteq> Undefined_behaviour"
proof (induction ops arbitrary: w)
  case Nil
  then show ?case by simp
next
  case (Cons op ops)
  then show ?case using stmt_of_defined [of rt op w] by (simp split: result.splits)
qed

lemma seq_healthy:
  assumes "healthy rt"
  shows "\<exists>w'. seq (map (stmt_of rt) ops) w = Returns w'"
proof (induction ops arbitrary: w)
  case Nil
  then show ?case by simp
next
  case (Cons op ops)
  from stmt_of_healthy [OF assms] obtain w1 where "stmt_of rt op w = Returns w1" by blast
  with Cons show ?case by simp
qed

lemma seq_issued:
  fixes rt :: "'v::zero runtime" and ops :: "'v op list" and w :: "'v world"
  defines "r \<equiv> seq (map (stmt_of rt) ops) w"
  shows "prefix (issued w r) (map event_of ops)"
    and "returns r \<Longrightarrow> issued w r = map event_of ops"
    and "returns r \<or> exits_with 1 r"
    and "healthy rt \<Longrightarrow> returns r"
proof -
  show "prefix (issued w r) (map event_of ops)"
  proof (cases r)
    case (Returns w')
    then show ?thesis using seq_Returns [of rt ops w w'] by (simp add: r_def issued_def)
  next
    case (Exits c w')
    then obtain k where "trace w' = trace w @ map event_of (take (Suc k) ops)"
      using seq_Exits [of rt ops w c w'] unfolding r_def by blast
    then have "issued w r = take (Suc k) (map event_of ops)"
      using Exits by (simp add: issued_def take_map)
    then show ?thesis by (simp add: take_is_prefix)
  next
    case Undefined_behaviour
    then show ?thesis by (simp add: issued_def)
  qed
  show "issued w r = map event_of ops" if "returns r"
  proof -
    from that obtain w' where "r = Returns w'" by (cases r) (simp_all add: returns_def)
    then show ?thesis using seq_Returns [of rt ops w w'] by (simp add: r_def issued_def)
  qed
  show "returns r \<or> exits_with 1 r"
  proof (cases r)
    case (Returns w')
    then show ?thesis by (simp add: returns_def)
  next
    case (Exits c w')
    then show ?thesis using seq_Exits [of rt ops w c w'] by (simp add: r_def exits_with_def)
  next
    case Undefined_behaviour
    then show ?thesis using seq_defined [of rt ops w] by (simp add: r_def)
  qed
  show "returns r" if "healthy rt"
    using seq_healthy [OF that, of ops w] by (auto simp: r_def returns_def)
qed

subsection \<open>The grid size\<close>

lemma sint_int_div_nonneg:
  assumes "0 \<le> sint n" "0 < sint d"
  shows "sint (int_div n d) = sint n div sint d"
proof -
  have q: "sint n sdiv sint d = sint n div sint d"
    using assms by (simp add: signed_divide_int_def sgn_if)
  have lo: "0 \<le> sint n div sint d" using assms by (simp add: pos_imp_zdiv_nonneg_iff)
  have "sint n div sint d \<le> sint n"
    using assms by (metis div_0 int_div_le_self leI nle_le)
  moreover have "sint n < 2 ^ 31" using sint_lt [of n] by simp
  ultimately have hi: "sint n div sint d < 2 ^ 31" by linarith
  show ?thesis
    unfolding int_div_def q using lo hi
    by (simp add: sint_sbintrunc' signed_take_bit_int_eq_self)
qed

lemma sint_int_mod_nonneg:
  assumes "0 \<le> sint n" "0 < sint d"
  shows "sint (int_mod n d) = sint n mod sint d"
proof -
  have q: "sint n smod sint d = sint n mod sint d"
    using assms by (simp add: signed_modulo_int_def sgn_if)
  have lo: "0 \<le> sint n mod sint d" using assms by simp
  have "sint n mod sint d \<le> sint n" using assms by (simp add: zmod_le_nonneg_dividend)
  moreover have "sint n < 2 ^ 31" using sint_lt [of n] by simp
  ultimately have hi: "sint n mod sint d < 2 ^ 31" by linarith
  show ?thesis
    unfolding int_mod_def q using lo hi
    by (simp add: sint_sbintrunc' signed_take_bit_int_eq_self)
qed

lemma int_mod_eq_0_iff:
  assumes "0 \<le> sint n" "0 < sint d"
  shows "int_mod n d = 0 \<longleftrightarrow> sint n mod sint d = 0"
  using sint_int_mod_nonneg [OF assms] signed_eq_0_iff [of "int_mod n d", where ?'a = int]
  by simp

lemma ceiling_div_int:
  assumes "0 < (d::int)"
  shows "\<lceil>real_of_int k / real_of_int d\<rceil> = (if k mod d = 0 then k div d else k div d + 1)"
  unfolding ceiling_divide_eq_div using assms
  by (simp add: zdiv_zminus1_eq_if)

lemma num_blocks_ceiling:
  assumes "0 \<le> sint n" "0 < sint d"
  shows "sint (num_blocks n d) = \<lceil>real_of_int (sint n) / real_of_int (sint d)\<rceil>"
proof (cases "sint n mod sint d = 0")
  case True
  then show ?thesis
    using assms
    by (simp add: num_blocks_def int_mod_eq_0_iff sint_int_div_nonneg ceiling_div_int
          del: of_int_sint)
next
  case False
  then have "sint d \<noteq> 1" by auto
  with assms have d2: "2 \<le> sint d" by linarith
  have "sint n div sint d \<le> sint n div 2"
    using assms d2 by (simp add: zdiv_mono2)
  moreover have "sint n < 2147483648" using sint_lt [of n] by simp
  ultimately have "sint n div sint d + 1 < 2147483648" by linarith
  then have hi: "sint n div sint d + 1 < 2 ^ 31" by simp
  have lo: "0 \<le> sint n div sint d" using assms by (simp add: pos_imp_zdiv_nonneg_iff)
  have "int_div n d = word_of_int (sint (int_div n d))" by simp
  then have e: "int_div n d + 1 = word_of_int (sint n div sint d + 1)"
    by (simp add: sint_int_div_nonneg [OF assms])
  have "sint (word_of_int (sint n div sint d + 1) :: c_int) = sint n div sint d + 1"
    unfolding sint_sbintrunc' using lo hi by (intro signed_take_bit_int_eq_self) simp_all
  then have "sint (int_div n d + 1) = sint n div sint d + 1"
    by (simp only: e)
  then show ?thesis
    using False assms by (simp add: num_blocks_def int_mod_eq_0_iff ceiling_div_int del: of_int_sint)
qed

subsection \<open>Every routine as a list of statements\<close>

lemma histogramScatterAdd2D_normal:
  "histogramScatterAdd2D rt histogram index1 index2 src maxidx1 n =
     seq (map (stmt_of rt) [Run kHistogramScatterAdd2D (num_blocks n 512) 512
       [PtrArg histogram, PtrArg index1, PtrArg index2, PtrArg src, IntArg maxidx1, IntArg n],
       Check 24])"
  by (simp add: histogramScatterAdd2D_def num_blocks_def Let_def)

lemma estimateQuantiles_normal:
  "estimateQuantiles rt T A code offset n =
     seq (map (stmt_of rt) [Clear 31 code (256 * sizeof_float),
        Run (kEstimateQuantiles T) (num_blocks n 4096) 512
          [PtrArg A, PtrArg code, FltArg offset, NumericLimitsMax T, IntArg n], Check 33])"
  by (simp add: estimateQuantiles_def num_blocks_def Let_def)

lemma quantize_normal:
  "quantize rt code A out n =
     seq (map (stmt_of rt) [Run kQuantize (num_blocks n 1024) 1024
       [PtrArg code, PtrArg A, PtrArg out, IntArg n], Check 41])"
  by (simp add: quantize_def num_blocks_def Let_def)

lemma dequantize_normal:
  "dequantize rt code A out n =
     seq (map (stmt_of rt) [Run kDequantize (num_blocks n 1024) 1024
       [PtrArg code, PtrArg A, PtrArg out, IntArg n], Check 49])"
  by (simp add: dequantize_def num_blocks_def Let_def)

lemma quantizeBlockwise_normal:
  "quantizeBlockwise rt T STOCHASTIC code A absmax out rand rand_offset n =
     seq (map (stmt_of rt) [Run (kQuantizeBlockwise T 4096 4 STOCHASTIC) (num_blocks n 4096) 1024
        [PtrArg code, PtrArg A, PtrArg absmax, PtrArg out, PtrArg rand, IntArg rand_offset,
         IntArg n], Check 57])"
  by (simp add: quantizeBlockwise_def num_blocks_def Let_def)

lemma dequantizeBlockwise_normal:
  assumes "\<not> div_undefined n blocksize"
  shows "dequantizeBlockwise rt T code A absmax out blocksize n =
     seq (map (stmt_of rt)
       ((if blocksize = 4096
         then [Run (kDequantizeBlockwise T 4096 1024 4) (num_blocks n blocksize) 1024
                 [PtrArg code, PtrArg A, PtrArg absmax, PtrArg out, IntArg n]]
         else if blocksize = 2048
         then [Run (kDequantizeBlockwise T 2048 512 4) (num_blocks n blocksize) 512
                 [PtrArg code, PtrArg A, PtrArg absmax, PtrArg out, IntArg n]]
         else []) @ [Check 68]))"
  using assms by (simp add: dequantizeBlockwise_def num_blocks_def Let_def)

lemma optimizer32bit_normal:
  "optimizer32bit rt T OPTIMIZER g p state1 state2 unorm max_unorm param_norm
       beta1 beta2 eps weight_decay step lr gnorm_scale skip_zeros n =
     seq (map (stmt_of rt)
       (if OPTIMIZER = ADAM then
          (if 0 < max_unorm
           then [Clear 83 unorm (1 * sizeof_float),
                 Run (kPreconditionOptimizer32bit2State T OPTIMIZER 4096 8) (num_blocks n 4096) 512
                   [PtrArg g, PtrArg p, PtrArg state1, PtrArg state2, PtrArg unorm, FltArg beta1,
                    FltArg beta2, FltArg eps, FltArg weight_decay, IntArg step, FltArg lr,
                    FltArg gnorm_scale, IntArg n],
                 Check 85]
           else [])
          @ [Run (kOptimizer32bit2State T OPTIMIZER) (num_blocks n 4096) 1024
               [PtrArg g, PtrArg p, PtrArg state1, PtrArg state2, PtrArg unorm, FltArg max_unorm,
                FltArg param_norm, FltArg beta1, FltArg beta2, FltArg eps, FltArg weight_decay,
                IntArg step, FltArg lr, FltArg gnorm_scale, BoolArg skip_zeros, IntArg n],
             Check 88]
        else if OPTIMIZER = MOMENTUM \<or> OPTIMIZER = RMSPROP \<or> OPTIMIZER = ADAGRAD then
          (if 0 < max_unorm
           then [Clear 96 unorm (1 * sizeof_float),
                 Run (kPreconditionOptimizer32bit1State T OPTIMIZER 4096 8) (num_blocks n 4096) 512
                   [PtrArg g, PtrArg p, PtrArg state1, PtrArg unorm, FltArg beta1, FltArg eps,
                    FltArg weight_decay, IntArg step, FltArg lr, FltArg gnorm_scale, IntArg n],
                 Check 98]
           else [])
          @ [Run (kOptimizer32bit1State T OPTIMIZER) (num_blocks n 4096) 1024
               [PtrArg g, PtrArg p, PtrArg state1, PtrArg unorm, FltArg max_unorm,
                FltArg param_norm, FltArg beta1, FltArg eps, FltArg weight_decay, IntArg step,
                FltArg lr, FltArg gnorm_scale, BoolArg skip_zeros, IntArg n],
             Check 102]
        else []))"
  by (simp add: optimizer32bit_def num_blocks_def Let_def)

lemma optimizerStatic8bit_normal:
  "optimizerStatic8bit rt T OPTIMIZER p g state1 state2 unorm max_unorm param_norm
       beta1 beta2 eps step lr quantiles1 quantiles2 max1 max2 new_max1 new_max2
       weight_decay gnorm_scale n =
     seq (map (stmt_of rt)
       ((if 0 < max_unorm then [Clear 120 unorm (1 * sizeof_float)] else [])
        @ (if OPTIMIZER = ADAM then
             [Clear 125 new_max1 (1 * sizeof_float), Clear 126 new_max2 (1 * sizeof_float),
              Run (kPreconditionOptimizerStatic8bit2State T OPTIMIZER) (num_blocks n 4096) 256
                [PtrArg p, PtrArg g, PtrArg state1, PtrArg state2, PtrArg unorm, FltArg beta1,
                 FltArg beta2, FltArg eps, IntArg step, PtrArg quantiles1, PtrArg quantiles2,
                 PtrArg max1, PtrArg max2, PtrArg new_max1, PtrArg new_max2, FltArg gnorm_scale,
                 IntArg n],
              Check 128,
              Run (kOptimizerStatic8bit2State T OPTIMIZER) (num_blocks n 4096) 1024
                [PtrArg p, PtrArg g, PtrArg state1, PtrArg state2, PtrArg unorm, FltArg max_unorm,
                 FltArg param_norm, FltArg beta1, FltArg beta2, FltArg eps, IntArg step,
                 FltArg lr, PtrArg quantiles1, PtrArg quantiles2, PtrArg max1, PtrArg max2,
                 PtrArg new_max1, PtrArg new_max2, FltArg weight_decay, FltArg gnorm_scale,
                 IntArg n],
              Check 131]
           else if OPTIMIZER = MOMENTUM \<or> OPTIMIZER = RMSPROP \<or> OPTIMIZER = ADAGRAD then
             [Clear 136 new_max1 (1 * sizeof_float),
              Run (kPreconditionOptimizerStatic8bit1State T OPTIMIZER) (num_blocks n 4096) 256
                [PtrArg p, PtrArg g, PtrArg state1, PtrArg unorm, FltArg beta1, FltArg eps,
                 IntArg step, PtrArg quantiles1, PtrArg max1, PtrArg new_max1,
                 FltArg weight_decay, FltArg gnorm_scale, IntArg n],
              Check 138,
              Run (kOptimizerStatic8bit1State T OPTIMIZER) (num_blocks n 4096) 1024
                [PtrArg p, PtrArg g, PtrArg state1, PtrArg unorm, FltArg max_unorm,
                 FltArg param_norm, FltArg beta1, FltArg eps, IntArg step, FltArg lr,
                 PtrArg quantiles1, PtrArg max1, PtrArg new_max1, FltArg weight_decay,
                 FltArg gnorm_scale, IntArg n],
              Check 141]
           else [])))"
  by (simp add: optimizerStatic8bit_def num_blocks_def Let_def)

lemma optimizerStatic8bitBlockwise_normal:
  "optimizerStatic8bitBlockwise rt T OPTIMIZER p g state1 state2 beta1 beta2 eps step lr
       quantiles1 quantiles2 absmax1 absmax2 weight_decay gnorm_scale skip_zeros n =
     seq (map (stmt_of rt)
       (if OPTIMIZER = ADAM then
          [Run (kOptimizerStatic8bit2StateBlockwise T OPTIMIZER 2048 8) (num_blocks n 2048) 256
             [PtrArg p, PtrArg g, PtrArg state1, PtrArg state2, FltArg beta1, FltArg beta2,
              FltArg eps, IntArg step, FltArg lr, PtrArg quantiles1, PtrArg quantiles2,
              PtrArg absmax1, PtrArg absmax2, FltArg weight_decay, FltArg gnorm_scale,
              BoolArg skip_zeros, IntArg n],
           Check 166]
        else if OPTIMIZER = MOMENTUM \<or> OPTIMIZER = RMSPROP \<or> OPTIMIZER = ADAGRAD then
          [Run (kOptimizerStatic8bit1StateBlockwise T OPTIMIZER 2048 8) (num_blocks n 2048) 256
             [PtrArg p, PtrArg g, PtrArg state1, FltArg beta1, FltArg beta2, FltArg eps,
              IntArg step, FltArg lr, PtrArg quantiles1, PtrArg absmax1, FltArg weight_decay,
              FltArg gnorm_scale, BoolArg skip_zeros, IntArg n],
           Check 175]
        else []))"
  by (simp add: optimizerStatic8bitBlockwise_def num_blocks_def Let_def
        BLOCKSIZE_2STATE_def NUM_2STATE_def BLOCKSIZE_1STATE_def NUM_1STATE_def)

lemma percentileClipping_normal:
  "percentileClipping rt T g gnorm_vec step n =
     seq (map (stmt_of rt)
       [Clear 186 (gnorm_vec + sint (int_mod step 100)) (1 * sizeof_float),
        Run (kPercentileClipping T 2048 4) (num_blocks n 2048) 512
          [PtrArg g, PtrArg gnorm_vec, IntArg step, IntArg n],
        Check 188])"
  by (simp add: percentileClipping_def num_blocks_def Let_def)

subsection \<open>The phases of an optimizer call\<close>




lemma zero_cells_one: "zero_cells p (Suc 0) m = m(p := 0)"
  by (auto simp: zero_cells_def fun_eq_iff)

lemma seq_returns_issuedI:
  fixes rt :: "'v::zero runtime"
  assumes "s = seq (map (stmt_of rt) ops)" and "returns (s w)"
  shows "issued w (s w) = map event_of ops"
  using seq_issued(2) [where rt = rt and ops = ops and w = w] assms by simp




subsection \<open>The kinds of optimizerStatic8bit\<close>

text \<open>
  Claim C8. The explicit instantiations of optimizerStatic8bit are exactly the pairs of
  ADAM, MOMENTUM or RMSPROP with half or float; ADAGRAD is not among them. The switch
  nevertheless has a case for it: a returning call with OPTIMIZER = ADAGRAD has launched
  the two 1-state kernels.
\<close>

theorem optimizerStatic8bit_instantiated_kinds:
  fixes rt :: "'v::{zero,ord} runtime"
  shows "set optimizerStatic8bit_instantiations = {ADAM, MOMENTUM, RMSPROP} \<times> {Half, Float}
   \<and> (\<forall>T. (ADAGRAD, T) \<notin> set optimizerStatic8bit_instantiations)
   \<and> (let r = optimizerStatic8bit rt T ADAGRAD p g state1 state2 unorm max_unorm param_norm
                 beta1 beta2 eps step lr quantiles1 quantiles2 max1 max2 new_max1 new_max2
                 weight_decay gnorm_scale n w
      in returns r \<longrightarrow>
           (\<exists>args. Launch (kPreconditionOptimizerStatic8bit1State T ADAGRAD) (num_blocks n 4096) 256
                     args \<in> set (issued w r))
         \<and> (\<exists>args. Launch (kOptimizerStatic8bit1State T ADAGRAD) (num_blocks n 4096) 1024 args
                     \<in> set (issued w r)))"
proof -
  have kinds: "set optimizerStatic8bit_instantiations = {ADAM, MOMENTUM, RMSPROP} \<times> {Half, Float}"
    by (auto simp: optimizerStatic8bit_instantiations_def)
  have none: "\<forall>T. (ADAGRAD, T) \<notin> set optimizerStatic8bit_instantiations"
    by (simp add: optimizerStatic8bit_instantiations_def ADAM_def MOMENTUM_def RMSPROP_def
          ADAGRAD_def)
  let ?r = "optimizerStatic8bit rt T ADAGRAD p g state1 state2 unorm max_unorm param_norm
                 beta1 beta2 eps step lr quantiles1 quantiles2 max1 max2 new_max1 new_max2
                 weight_decay gnorm_scale n w"
  have "(\<exists>args. Launch (kPreconditionOptimizerStatic8bit1State T ADAGRAD) (num_blocks n 4096) 256
                     args \<in> set (issued w ?r))
         \<and> (\<exists>args. Launch (kOptimizerStatic8bit1State T ADAGRAD) (num_blocks n 4096) 1024 args
                     \<in> set (issued w ?r))" if "returns ?r"
    unfolding seq_returns_issuedI [OF optimizerStatic8bit_normal that]
    by (auto simp: ADAM_def MOMENTUM_def RMSPROP_def ADAGRAD_def)
  with kinds none show ?thesis unfolding Let_def by blast
qed

theorem optimizerStatic8bit_instantiated_kinds_witness:
  "let r = optimizerStatic8bit quiet_runtime Float ADAGRAD 100 200 300 400 4 1 1 0.9 0.999 0.01
             1 0.001 500 600 10 11 12 13 0 1 5000 sevens
   in returns r
      \<and> (\<exists>args. Launch (kPreconditionOptimizerStatic8bit1State Float ADAGRAD) 2 256 args
             \<in> set (issued sevens r))"
proof -
  let ?r = "optimizerStatic8bit quiet_runtime Float ADAGRAD 100 200 300 400 4 1 1 0.9 0.999 0.01
             1 0.001 500 600 10 11 12 13 0 1 5000 sevens"
  have r: "returns ?r"
    by (simp add: optimizerStatic8bit_def Let_def
        ADAM_def MOMENTUM_def RMSPROP_def ADAGRAD_def CUDA_CHECK_RETURN_def cudaMemset_def
        cudaPeekAtLastError_def launch_def quiet_runtime_def sevens_def returns_def
        cudaSuccess_def)
  have b: "num_blocks 5000 4096 = 2"
    by (simp add: num_blocks_def int_div_def int_mod_def signed_divide_int_def
          signed_modulo_int_def)
  from optimizerStatic8bit_instantiated_kinds [of quiet_runtime Float 100 200 300 400 4 1 1 "0.9"
      "0.999" "0.01" 1 "0.001" 500 600 10 11 12 13 0 1 5000 sevens] r b
  show ?thesis by (simp add: Let_def)
qed

text \<open>
  Claim C9. In optimizerStatic8bit the clearing of \<open>unorm\<close> comes before the switch. For
  a kind outside the four of the switch and \<open>max_unorm > 0\<close>, the whole call is that one
  cudaMemset: if it succeeds the call returns with \<open>unorm\<close> set to zero, every other
  cell as it was and no kernel launched; if it fails the process exits with status 1.
\<close>

theorem optimizerStatic8bit_default_clears_unorm:
  fixes rt :: "'v::{zero,ord} runtime"
  assumes "OPTIMIZER \<notin> {ADAM, MOMENTUM, RMSPROP, ADAGRAD}" and "0 < max_unorm"
  shows "optimizerStatic8bit rt T OPTIMIZER p g state1 state2 unorm max_unorm param_norm
           beta1 beta2 eps step lr quantiles1 quantiles2 max1 max2 new_max1 new_max2
           weight_decay gnorm_scale n w
         = (let tr = trace w @ [Memset unorm (1 * sizeof_float)]; st = status rt tr
            in if st = cudaSuccess
               then Returns (w\<lparr>mem := (mem w)(unorm := 0), trace := tr\<rparr>)
               else Exits 1 (w\<lparr>trace := tr, stderr := stderr w @ error_message rt st 120\<rparr>))"
  using assms
  by (simp add: optimizerStatic8bit_normal CUDA_CHECK_RETURN_def cudaMemset_def Let_def
        sizeof_float_def zero_cells_one)

theorem optimizerStatic8bit_default_clears_unorm_witness:
  "(7::int) \<notin> {ADAM, MOMENTUM, RMSPROP, ADAGRAD} \<and> (0::real) < 1
   \<and> optimizerStatic8bit quiet_runtime Float 7 100 200 300 400 4 1 1 0.9 0.999 0.01
        1 0.001 500 600 10 11 12 13 0 1 5000 sevens
     = Returns \<lparr>mem = (\<lambda>a. 7)(4 := 0), trace = [Memset 4 4], stderr = []\<rparr>"
  using optimizerStatic8bit_default_clears_unorm [of 7 1 quiet_runtime Float 100 200 300 400 4 1
      "0.9" "0.999" "0.01" 1 "0.001" 500 600 10 11 12 13 0 1 5000 sevens]
  by (simp add: ADAM_def MOMENTUM_def RMSPROP_def ADAGRAD_def quiet_runtime_def sevens_def
        Let_def sizeof_float_def)

subsection \<open>The dispatch of dequantizeBlockwise\<close>

text \<open>
  Claim C3, as the code has it. Where \<open>n / blocksize\<close> is defined: for a block size
  other than 2048 and 4096 the only runtime call is the cudaPeekAtLastError of line 68, no
  kernel is launched and the memory is untouched; the call returns, having printed nothing,
  when that check reports success, and ends the process with the message of line 68
  otherwise. For 2048 and 4096 exactly one kernel is launched, the instance of
  kDequantizeBlockwise for that block size with a quarter as many threads, and then
  checked.
\<close>

theorem dequantizeBlockwise_dispatch:
  fixes rt :: "'v::zero runtime"
  assumes "\<not> div_undefined n blocksize"
  shows "let r = dequantizeBlockwise rt T code A absmax out blocksize n w
         in (blocksize \<notin> {2048, 4096} \<longrightarrow>
               issued w r = [PeekAtLastError]
               \<and> (status rt (trace w @ [PeekAtLastError]) = cudaSuccess
                    \<longrightarrow> r = Returns (w\<lparr>trace := trace w @ [PeekAtLastError]\<rparr>))
               \<and> (status rt (trace w @ [PeekAtLastError]) \<noteq> cudaSuccess
                    \<longrightarrow> r = Exits 1 (w\<lparr>trace := trace w @ [PeekAtLastError],
                          stderr := stderr w @ error_message rt
                            (status rt (trace w @ [PeekAtLastError])) 68\<rparr>)))
          \<and> (blocksize \<in> {2048, 4096} \<longrightarrow>
               issued w r =
                 [Launch (kDequantizeBlockwise T (sint blocksize) (sint blocksize div 4) 4)
                    (num_blocks n blocksize) (sint blocksize div 4)
                    [PtrArg code, PtrArg A, PtrArg absmax, PtrArg out, IntArg n],
                  PeekAtLastError]
               \<and> length (filter is_launch (issued w r)) = 1)"
  using assms
  by (simp add: dequantizeBlockwise_def Let_def num_blocks_def CUDA_CHECK_RETURN_def
        cudaPeekAtLastError_def launch_def issued_def)

subsection \<open>Work-groups\<close>

lemma grids_append: "grids (es @ fs) = grids es @ grids fs"
proof (induction es)
  case Nil
  then show ?case by simp
next
  case (Cons e es)
  then show ?case by (cases e) simp_all
qed

lemma grids_prefix: "prefix es fs \<Longrightarrow> set (grids es) \<subseteq> set (grids fs)"
  by (auto simp: prefix_def grids_append)

lemma num_blocks_0: "0 < sint d \<Longrightarrow> num_blocks 0 d = 0"
  by (simp add: num_blocks_def int_mod_def int_div_def)

lemma is_launch_event_of: "is_launch (event_of op) \<longleftrightarrow> checked_line op = None"
  by (cases op) simp_all

lemma seq_Returns_memI:
  fixes rt :: "'v::zero runtime"
  assumes "s = seq (map (stmt_of rt) ops)" and "s w = Returns w'"
  shows "mem w' = fold (mem_effect rt) ops (mem w)"
    and "issued w (s w) = map event_of ops"
    and "stderr w' = stderr w"
  using seq_Returns [of rt ops w w'] assms by (simp_all add: issued_def)

lemma stmt_of_Exits_mem:
  assumes "stmt_of rt op w = Exits c w'"
  shows "mem w' = mem w"
  using assms
  by (cases op; simp add: CUDA_CHECK_RETURN_def cudaMemset_def cudaPeekAtLastError_def
        launch_def Let_def split: if_splits; fastforce)

lemma seq_Exits_at:
  assumes "seq (map (stmt_of rt) ops) w = Exits c w'"
  shows "c = 1 \<and> (\<exists>k. k < length ops \<and> checked_line (ops ! k) \<noteq> None
           \<and> trace w' = trace w @ map event_of (take (Suc k) ops)
           \<and> mem w' = fold (mem_effect rt) (take k ops) (mem w))"
  using assms
proof (induction ops arbitrary: w)
  case Nil
  then show ?case by simp
next
  case (Cons op ops)
  show ?case
  proof (cases "stmt_of rt op w")
    case (Returns w1)
    with Cons.prems have rest: "seq (map (stmt_of rt) ops) w1 = Exits c w'" by simp
    from Cons.IH [OF rest] obtain k where k: "k < length ops"
      "checked_line (ops ! k) \<noteq> None"
      "trace w' = trace w1 @ map event_of (take (Suc k) ops)"
      "mem w' = fold (mem_effect rt) (take k ops) (mem w1)" and c: "c = 1"
      by blast
    from stmt_of_Returns(1) [OF Returns] have w1: "trace w1 = trace w @ [event_of op]"
      "mem w1 = mem_effect rt op (mem w)"
      by simp_all
    have "Suc k < length (op # ops)" using k(1) by simp
    moreover have "checked_line ((op # ops) ! Suc k) \<noteq> None" using k(2) by simp
    moreover have "trace w' = trace w @ map event_of (take (Suc (Suc k)) (op # ops))"
      using k(3) w1 by simp
    moreover have "mem w' = fold (mem_effect rt) (take (Suc k) (op # ops)) (mem w)"
      using k(4) w1 by simp
    ultimately show ?thesis using c by blast
  next
    case (Exits c1 w1)
    with Cons.prems have eq: "c1 = c" "w1 = w'" by simp_all
    from stmt_of_Exits [OF Exits] stmt_of_Exits_mem [OF Exits] eq
    have "c = 1" "checked_line op \<noteq> None" "trace w' = trace w @ [event_of op]" "mem w' = mem w"
      by auto
    then have "c = 1 \<and> 0 < length (op # ops) \<and> checked_line ((op # ops) ! 0) \<noteq> None
           \<and> trace w' = trace w @ map event_of (take (Suc 0) (op # ops))
           \<and> mem w' = fold (mem_effect rt) (take 0 (op # ops)) (mem w)"
      by simp
    then show ?thesis by blast
  next
    case Undefined_behaviour
    then show ?thesis using stmt_of_defined by blast
  qed
qed

lemma grids_nonempty: "e \<in> set es \<Longrightarrow> is_launch e \<Longrightarrow> grids es \<noteq> []"
proof (induction es)
  case Nil
  then show ?case by simp
next
  case (Cons x xs)
  then show ?case by (cases x; cases e) auto
qed

lemma grids_clears: "\<forall>op \<in> set xs. is_clear op \<Longrightarrow> grids (map event_of xs) = []"
proof (induction xs)
  case Nil
  then show ?case by simp
next
  case (Cons x xs)
  then show ?case by (cases x) auto
qed

lemma is_clear_event: "is_clear op \<Longrightarrow> \<exists>p count. event_of op = Memset p count"
  by (cases op) simp_all

lemma not_clear_effect:
  fixes rt :: "'v::zero runtime"
  assumes "empty_grid_noop rt" and "\<forall>op \<in> set ops. \<not> is_clear op"
      and "set (grids (map event_of ops)) \<subseteq> {0}"
  shows "fold (mem_effect rt) ops m = m"
  using assms(2,3)
proof (induction ops arbitrary: m)
  case Nil
  then show ?case by simp
next
  case (Cons op ops)
  then show ?case using assms(1) by (cases op) (simp_all add: empty_grid_noop_def)
qed

text \<open>
  Where a call can end, for a routine whose statements after the leading cudaMemset calls
  begin with a launch: it returns; or it exits at one of the leading cudaMemset calls,
  before any launch; or it exits at a later check, after a launch.
\<close>

lemma seq_clears_then_body:
  fixes rt :: "'v::zero runtime"
  assumes s: "s = seq (map (stmt_of rt) ops)"
      and body: "dropWhile is_clear ops \<noteq> []" "checked_line (hd (dropWhile is_clear ops)) = None"
  shows "(\<exists>w'. s w = Returns w' \<and> issued w (s w) = map event_of ops
               \<and> mem w' = fold (mem_effect rt) ops (mem w))
       \<or> (\<exists>w'. s w = Exits 1 w' \<and> ended_at_memset (issued w (s w)) \<and> grids (issued w (s w)) = [])
       \<or> (\<exists>w' j. s w = Exits 1 w' \<and> j < length (dropWhile is_clear ops)
               \<and> issued w (s w)
                   = map event_of (takeWhile is_clear ops @ take (Suc j) (dropWhile is_clear ops))
               \<and> grids (issued w (s w)) \<noteq> []
               \<and> mem w' = fold (mem_effect rt)
                            (takeWhile is_clear ops @ take j (dropWhile is_clear ops)) (mem w))"
proof (cases "s w")
  case (Returns w')
  then show ?thesis using seq_Returns_memI(1,2) [OF s Returns] by simp
next
  case Undefined_behaviour
  then show ?thesis using seq_defined [of rt ops w] s by simp
next
  case (Exits c w')
  define cl where "cl = takeWhile is_clear ops"
  define bd where "bd = dropWhile is_clear ops"
  have ops: "ops = cl @ bd" by (simp add: cl_def bd_def)
  have cl: "\<And>op. op \<in> set cl \<Longrightarrow> is_clear op" unfolding cl_def by (auto dest: set_takeWhileD)
  from body obtain b bs where bd: "bd = b # bs" and b: "checked_line b = None"
    unfolding bd_def [symmetric] by (cases bd) auto
  from seq_Exits_at [of rt ops w c w'] Exits s obtain k where c: "c = 1" and k: "k < length ops"
    "checked_line (ops ! k) \<noteq> None" "trace w' = trace w @ map event_of (take (Suc k) ops)"
    "mem w' = fold (mem_effect rt) (take k ops) (mem w)"
    by auto
  have iss: "issued w (s w) = map event_of (take (Suc k) ops)"
    using Exits k(3) by (simp add: issued_def)
  show ?thesis
  proof (cases "k < length cl")
    case True
    then have "is_clear (ops ! k)" using cl ops by (simp add: nth_append)
    then obtain p count where e: "event_of (ops ! k) = Memset p count"
      using is_clear_event by blast
    have t: "take (Suc k) ops = take k cl @ [ops ! k]"
      using True k(1) ops by (simp add: take_Suc_conv_app_nth nth_append)
    have "ended_at_memset (issued w (s w))"
      unfolding iss t ended_at_memset_def by (simp add: e)
    moreover have "grids (map event_of (take k cl)) = []"
      by (rule grids_clears) (use cl in \<open>auto dest: in_set_takeD\<close>)
    then have "grids (issued w (s w)) = []"
      unfolding iss t by (simp add: grids_append e)
    ultimately show ?thesis using Exits c by blast
  next
    case False
    define j where "j = k - length cl"
    have j: "j < length bd" using False k(1) ops by (simp add: j_def)
    have t: "take (Suc k) ops = cl @ take (Suc j) bd"
      using False by (subst ops) (simp add: j_def Suc_diff_le)
    have tk: "take k ops = cl @ take j bd" using False by (subst ops) (simp add: j_def)
    have "b \<in> set (take (Suc j) bd)" using bd by simp
    then have "event_of b \<in> set (map event_of (cl @ take (Suc j) bd))" by simp
    moreover have "is_launch (event_of b)" using b by (simp add: is_launch_event_of)
    ultimately have g: "grids (map event_of (cl @ take (Suc j) bd)) \<noteq> []"
      by (rule grids_nonempty)
    have m: "mem w' = fold (mem_effect rt) (cl @ take j bd) (mem w)"
      using k(4) tk by simp
    from Exits c j iss t g m show ?thesis unfolding cl_def bd_def by auto
  qed
qed

lemma seq_grid_is_ceiling:
  fixes rt :: "'v::zero runtime"
  assumes s: "s = seq (map (stmt_of rt) ops)"
      and g: "grids (map event_of ops) = replicate k (num_blocks n d)"
      and body: "dropWhile is_clear ops \<noteq> []" "checked_line (hd (dropWhile is_clear ops)) = None"
      and n: "0 \<le> sint n" and d: "0 < sint d" and E: "sint d = E"
  shows "grid_is_ceiling k n E rt w (s w)"
proof -
  note i = seq_issued [where rt = rt and ops = ops and w = w, folded s]
  have "set (grids (issued w (s w))) \<subseteq> set (grids (map event_of ops))"
    using grids_prefix [OF i(1)] .
  then have sub: "set (grids (issued w (s w))) \<subseteq> {num_blocks n d}"
    unfolding g by auto
  have c: "sint (num_blocks n d) = \<lceil>real_of_int (sint n) / real_of_int E\<rceil>"
    using num_blocks_ceiling [OF n d] E by simp
  have z: "n = 0 \<Longrightarrow> num_blocks n d = 0"
    using num_blocks_0 [OF d] by simp
  have 1: "\<forall>b \<in> set (grids (issued w (s w))). sint b = \<lceil>real_of_int (sint n) / real_of_int E\<rceil>"
    using sub c by blast
  have 2: "n = 0 \<longrightarrow> (\<forall>b \<in> set (grids (issued w (s w))). b = 0)"
    using sub z by blast
  have 3: "returns (s w) \<longrightarrow> length (grids (issued w (s w))) = k"
    using i(2) g by simp
  have 4: "grids (issued w (s w)) = [] \<longrightarrow> ended_at_memset (issued w (s w))"
    using seq_clears_then_body [OF s body, of w]
  proof (elim disjE exE conjE)
    fix w' assume "s w = Returns w'" "issued w (s w) = map event_of ops"
    moreover have "hd (dropWhile is_clear ops) \<in> set ops"
      using body(1) by (metis hd_in_set set_dropWhileD)
    then have "grids (map event_of ops) \<noteq> []"
      using body(2) by (intro grids_nonempty [of "event_of (hd (dropWhile is_clear ops))"])
        (simp_all add: is_launch_event_of)
    ultimately show ?thesis by simp
  qed simp_all
  from 1 2 3 4 i(3,4) show ?thesis unfolding grid_is_ceiling_def by blast
qed

lemma s1: "sint (512 :: c_int) = 512" "sint (1024 :: c_int) = 1024" "sint (2048 :: c_int) = 2048"
  "sint (4096 :: c_int) = 4096"
  by simp_all

text \<open>
  Claim C5. For an element count \<open>n \<ge> 0\<close>, every routine launches its kernels with
  \<open>\<lceil>n / E\<rceil>\<close> work-groups, where \<open>E\<close> is 512 for histogramScatterAdd2D, 1024 for
  quantize and dequantize, 4096 for estimateQuantiles, quantizeBlockwise, optimizer32bit
  and optimizerStatic8bit, 2048 for optimizerStatic8bitBlockwise and percentileClipping,
  and the block size for dequantizeBlockwise with block size 2048 or 4096; for \<open>n = 0\<close>
  that is no work-group at all. A call that returns has made every launch of the routine
  (one; two for optimizerStatic8bit, and for optimizer32bit when \<open>max_unorm > 0\<close>), a
  call that ends the process has made at least the first launch unless a cudaMemset before
  it failed, and on a healthy runtime the call returns. For a kind of optimizer other
  than the four, the three optimizer routines launch nothing.
\<close>

theorem work_groups_are_ceiling:
  fixes rt :: "'v::{zero,ord} runtime"
  assumes "0 \<le> sint n"
  shows "grid_is_ceiling 1 n 512 rt w (histogramScatterAdd2D rt histogram index1 index2 src maxidx1 n w)
    \<and> grid_is_ceiling 1 n 4096 rt w (estimateQuantiles rt T A code offset n w)
    \<and> grid_is_ceiling 1 n 1024 rt w (quantize rt code A out n w)
    \<and> grid_is_ceiling 1 n 1024 rt w (dequantize rt code A out n w)
    \<and> grid_is_ceiling 1 n 4096 rt w
         (quantizeBlockwise rt T STOCHASTIC code A absmax out rand rand_offset n w)
    \<and> (blocksize \<in> {2048, 4096} \<longrightarrow>
         grid_is_ceiling 1 n (sint blocksize) rt w
           (dequantizeBlockwise rt T code A absmax out blocksize n w))
    \<and> (OPTIMIZER \<in> {ADAM, MOMENTUM, RMSPROP, ADAGRAD} \<longrightarrow>
         grid_is_ceiling (if 0 < max_unorm then 2 else 1) n 4096 rt w
           (optimizer32bit rt T OPTIMIZER g p state1 state2 unorm max_unorm param_norm
              beta1 beta2 eps weight_decay step lr gnorm_scale skip_zeros n w)
         \<and> grid_is_ceiling 2 n 4096 rt w
           (optimizerStatic8bit rt T OPTIMIZER p g state1 state2 unorm max_unorm param_norm
              beta1 beta2 eps step lr quantiles1 quantiles2 max1 max2 new_max1 new_max2
              weight_decay gnorm_scale n w)
         \<and> grid_is_ceiling 1 n 2048 rt w
           (optimizerStatic8bitBlockwise rt T OPTIMIZER p g state1 state2 beta1 beta2 eps step lr
              quantiles1 quantiles2 absmax1 absmax2 weight_decay gnorm_scale skip_zeros n w))
    \<and> (OPTIMIZER \<notin> {ADAM, MOMENTUM, RMSPROP, ADAGRAD} \<longrightarrow>
         grids (issued w
           (optimizer32bit rt T OPTIMIZER g p state1 state2 unorm max_unorm param_norm
              beta1 beta2 eps weight_decay step lr gnorm_scale skip_zeros n w)) = []
         \<and> grids (issued w
           (optimizerStatic8bit rt T OPTIMIZER p g state1 state2 unorm max_unorm param_norm
              beta1 beta2 eps step lr quantiles1 quantiles2 max1 max2 new_max1 new_max2
              weight_decay gnorm_scale n w)) = []
         \<and> grids (issued w
           (optimizerStatic8bitBlockwise rt T OPTIMIZER p g state1 state2 beta1 beta2 eps step lr
              quantiles1 quantiles2 absmax1 absmax2 weight_decay gnorm_scale skip_zeros n w)) = [])
    \<and> grid_is_ceiling 1 n 2048 rt w (percentileClipping rt T g gnorm_vec step n w)"
proof -
  have 1: "grid_is_ceiling 1 n 512 rt w (histogramScatterAdd2D rt histogram index1 index2 src maxidx1 n w)"
    by (rule seq_grid_is_ceiling [OF histogramScatterAdd2D_normal _ _ _ assms, where d = 512])
       simp_all
  have 2: "grid_is_ceiling 1 n 4096 rt w (estimateQuantiles rt T A code offset n w)"
    by (rule seq_grid_is_ceiling [OF estimateQuantiles_normal _ _ _ assms, where d = 4096])
       simp_all
  have 3: "grid_is_ceiling 1 n 1024 rt w (quantize rt code A out n w)"
    by (rule seq_grid_is_ceiling [OF quantize_normal _ _ _ assms, where d = 1024]) simp_all
  have 4: "grid_is_ceiling 1 n 1024 rt w (dequantize rt code A out n w)"
    by (rule seq_grid_is_ceiling [OF dequantize_normal _ _ _ assms, where d = 1024]) simp_all
  have 5: "grid_is_ceiling 1 n 4096 rt w
         (quantizeBlockwise rt T STOCHASTIC code A absmax out rand rand_offset n w)"
    by (rule seq_grid_is_ceiling [OF quantizeBlockwise_normal _ _ _ assms, where d = 4096])
       simp_all
  have 6: "grid_is_ceiling 1 n (sint blocksize) rt w
         (dequantizeBlockwise rt T code A absmax out blocksize n w)"
    if "blocksize \<in> {2048, 4096}"
  proof -
    from that have nd: "\<not> div_undefined n blocksize" by (auto simp: div_undefined_def)
    show ?thesis
      by (rule seq_grid_is_ceiling [OF dequantizeBlockwise_normal [OF nd] _ _ _ assms,
            where d = blocksize]) (use that in auto)
  qed
  have 7: "grid_is_ceiling (if 0 < max_unorm then 2 else 1) n 4096 rt w
         (optimizer32bit rt T OPTIMIZER g p state1 state2 unorm max_unorm param_norm
            beta1 beta2 eps weight_decay step lr gnorm_scale skip_zeros n w)"
    if "OPTIMIZER \<in> {ADAM, MOMENTUM, RMSPROP, ADAGRAD}"
  proof -
    from that consider "OPTIMIZER = ADAM"
      | "OPTIMIZER \<noteq> ADAM" "OPTIMIZER = MOMENTUM \<or> OPTIMIZER = RMSPROP \<or> OPTIMIZER = ADAGRAD"
      by auto
    then show ?thesis
    proof cases
      case 1
      show ?thesis
      proof (cases "0 < max_unorm")
        case True
        show ?thesis
          by (rule seq_grid_is_ceiling [OF optimizer32bit_normal _ _ _ assms, where d = 4096])
             (simp_all add: 1 True numeral_2_eq_2)
      next
        case False
        show ?thesis
          by (rule seq_grid_is_ceiling [OF optimizer32bit_normal _ _ _ assms, where d = 4096])
             (simp_all add: 1 False numeral_2_eq_2)
      qed
    next
      case 2
      show ?thesis
      proof (cases "0 < max_unorm")
        case True
        show ?thesis
          by (rule seq_grid_is_ceiling [OF optimizer32bit_normal _ _ _ assms, where d = 4096])
             (simp_all add: 2 True numeral_2_eq_2)
      next
        case False
        show ?thesis
          by (rule seq_grid_is_ceiling [OF optimizer32bit_normal _ _ _ assms, where d = 4096])
             (simp_all add: 2 False numeral_2_eq_2)
      qed
    qed
  qed
  have 8: "grid_is_ceiling 2 n 4096 rt w
         (optimizerStatic8bit rt T OPTIMIZER p g state1 state2 unorm max_unorm param_norm
            beta1 beta2 eps step lr quantiles1 quantiles2 max1 max2 new_max1 new_max2
            weight_decay gnorm_scale n w)"
    if "OPTIMIZER \<in> {ADAM, MOMENTUM, RMSPROP, ADAGRAD}"
  proof -
    from that consider "OPTIMIZER = ADAM"
      | "OPTIMIZER \<noteq> ADAM" "OPTIMIZER = MOMENTUM \<or> OPTIMIZER = RMSPROP \<or> OPTIMIZER = ADAGRAD"
      by auto
    then show ?thesis
    proof cases
      case 1
      show ?thesis
      proof (cases "0 < max_unorm")
        case True
        show ?thesis
          by (rule seq_grid_is_ceiling [OF optimizerStatic8bit_normal _ _ _ assms, where d = 4096])
             (simp_all add: 1 True numeral_2_eq_2)
      next
        case False
        show ?thesis
          by (rule seq_grid_is_ceiling [OF optimizerStatic8bit_normal _ _ _ assms, where d = 4096])
             (simp_all add: 1 False numeral_2_eq_2)
      qed
    next
      case 2
      show ?thesis
      proof (cases "0 < max_unorm")
        case True
        show ?thesis
          by (rule seq_grid_is_ceiling [OF optimizerStatic8bit_normal _ _ _ assms, where d = 4096])
             (simp_all add: 2 True numeral_2_eq_2)
      next
        case False
        show ?thesis
          by (rule seq_grid_is_ceiling [OF optimizerStatic8bit_normal _ _ _ assms, where d = 4096])
             (simp_all add: 2 False numeral_2_eq_2)
      qed
    qed
  qed
  have 9: "grid_is_ceiling 1 n 2048 rt w
         (optimizerStatic8bitBlockwise rt T OPTIMIZER p g state1 state2 beta1 beta2 eps step lr
            quantiles1 quantiles2 absmax1 absmax2 weight_decay gnorm_scale skip_zeros n w)"
    if "OPTIMIZER \<in> {ADAM, MOMENTUM, RMSPROP, ADAGRAD}"
  proof -
    from that consider "OPTIMIZER = ADAM"
      | "OPTIMIZER \<noteq> ADAM" "OPTIMIZER = MOMENTUM \<or> OPTIMIZER = RMSPROP \<or> OPTIMIZER = ADAGRAD"
      by auto
    then show ?thesis
    proof cases
      case 1
      show ?thesis
      proof (cases "0 < max_unorm")
        case True
        show ?thesis
          by (rule seq_grid_is_ceiling [OF optimizerStatic8bitBlockwise_normal _ _ _ assms, where d = 2048])
             (simp_all add: 1 True numeral_2_eq_2)
      next
        case False
        show ?thesis
          by (rule seq_grid_is_ceiling [OF optimizerStatic8bitBlockwise_normal _ _ _ assms, where d = 2048])
             (simp_all add: 1 False numeral_2_eq_2)
      qed
    next
      case 2
      show ?thesis
      proof (cases "0 < max_unorm")
        case True
        show ?thesis
          by (rule seq_grid_is_ceiling [OF optimizerStatic8bitBlockwise_normal _ _ _ assms, where d = 2048])
             (simp_all add: 2 True numeral_2_eq_2)
      next
        case False
        show ?thesis
          by (rule seq_grid_is_ceiling [OF optimizerStatic8bitBlockwise_normal _ _ _ assms, where d = 2048])
             (simp_all add: 2 False numeral_2_eq_2)
      qed
    qed
  qed
  have 10: "grid_is_ceiling 1 n 2048 rt w (percentileClipping rt T g gnorm_vec step n w)"
    by (rule seq_grid_is_ceiling [OF percentileClipping_normal _ _ _ assms, where d = 2048])
       simp_all
  have none: "grids (issued w (s w)) = []"
    if "s = seq (map (stmt_of rt) ops)" "grids (map event_of ops) = []" for s ops
    using grids_prefix [OF seq_issued(1) [where rt = rt and ops = ops and w = w]] that by simp
  have 11: "grids (issued w
           (optimizer32bit rt T OPTIMIZER g p state1 state2 unorm max_unorm param_norm
              beta1 beta2 eps weight_decay step lr gnorm_scale skip_zeros n w)) = []"
    if "OPTIMIZER \<notin> {ADAM, MOMENTUM, RMSPROP, ADAGRAD}"
    by (rule none [OF optimizer32bit_normal]) (use that in simp)
  have 12: "grids (issued w
           (optimizerStatic8bit rt T OPTIMIZER p g state1 state2 unorm max_unorm param_norm
              beta1 beta2 eps step lr quantiles1 quantiles2 max1 max2 new_max1 new_max2
              weight_decay gnorm_scale n w)) = []"
    if "OPTIMIZER \<notin> {ADAM, MOMENTUM, RMSPROP, ADAGRAD}"
    by (rule none [OF optimizerStatic8bit_normal]) (use that in simp)
  have 13: "grids (issued w
           (optimizerStatic8bitBlockwise rt T OPTIMIZER p g state1 state2 beta1 beta2 eps step lr
              quantiles1 quantiles2 absmax1 absmax2 weight_decay gnorm_scale skip_zeros n w)) = []"
    if "OPTIMIZER \<notin> {ADAM, MOMENTUM, RMSPROP, ADAGRAD}"
    by (rule none [OF optimizerStatic8bitBlockwise_normal]) (use that in simp)
  from 1 2 3 4 5 6 7 8 9 10 11 12 13 show ?thesis by blast
qed

subsection \<open>Failures of the runtime\<close>

lemma launch_checked_take:
  "launch_checked es \<Longrightarrow> k < length es \<Longrightarrow> \<not> is_launch (es ! k)
     \<Longrightarrow> launch_checked (take (Suc k) es)"
proof (induction es arbitrary: k rule: launch_checked.induct)
  case 1
  then show ?case by simp
next
  case (2 kn grid threads args es)
  show ?case
  proof (cases k)
    case 0
    with 2 show ?thesis by simp
  next
    case (Suc k1)
    show ?thesis
    proof (cases k1)
      case 0
      with Suc show ?thesis by simp
    next
      case (Suc k2)
      with 2 \<open>k = Suc k1\<close> show ?thesis by simp
    qed
  qed
qed (auto simp: less_Suc_eq_0_disj split: nat.splits)


lemma seq_fatal_on_failure:
  fixes rt :: "'v::zero runtime"
  assumes s: "s = seq (map (stmt_of rt) ops)"
      and lc: "launch_checked (map event_of ops)"
      and lines: "\<forall>op \<in> set ops. \<forall>l. checked_line op = Some l \<longrightarrow> l \<in> check_lines"
  shows "fatal_on_failure rt s"
  unfolding fatal_on_failure_def Let_def
proof (intro allI)
  fix w
  show "launch_checked (issued w (s w))
        \<and> (case s w of
             Returns w' \<Rightarrow> stderr w' = stderr w
               \<and> (\<forall>st \<in> set (statuses rt (trace w) (issued w (s w))). st = cudaSuccess)
           | Exits c w' \<Rightarrow>
               c = 1 \<and> statuses rt (trace w) (issued w (s w)) \<noteq> []
               \<and> last (statuses rt (trace w) (issued w (s w))) \<noteq> cudaSuccess
               \<and> (\<forall>st \<in> set (butlast (statuses rt (trace w) (issued w (s w)))). st = cudaSuccess)
               \<and> (\<exists>line \<in> check_lines.
                     stderr w' = stderr w
                       @ error_message rt (last (statuses rt (trace w) (issued w (s w)))) line)
           | Undefined_behaviour \<Rightarrow> False)"
  proof (cases "s w")
    case (Returns w')
    from seq_Returns [OF Returns [unfolded s]]
    have w': "w' = w\<lparr>mem := fold (mem_effect rt) ops (mem w), trace := trace w @ map event_of ops\<rparr>"
      and ok: "\<forall>st \<in> set (statuses rt (trace w) (map event_of ops)). st = cudaSuccess"
      by simp_all
    have iss: "issued w (s w) = map event_of ops"
      using Returns w' by (simp add: issued_def)
    have "launch_checked (issued w (s w))" unfolding iss by (fact lc)
    moreover have "\<forall>st \<in> set (statuses rt (trace w) (issued w (s w))). st = cudaSuccess"
      unfolding iss by (fact ok)
    moreover have "stderr w' = stderr w" using w' by simp
    ultimately show ?thesis by (simp add: Returns)
  next
    case (Exits c w')
    from seq_Exits [OF Exits [unfolded s]] obtain k line where c: "c = 1" and k: "k < length ops"
      and line: "checked_line (ops ! k) = Some line"
      and tr: "trace w' = trace w @ map event_of (take (Suc k) ops)"
      and ok: "\<forall>st \<in> set (statuses rt (trace w) (map event_of (take k ops))). st = cudaSuccess"
      and bad: "status rt (trace w') \<noteq> cudaSuccess"
      and err: "stderr w' = stderr w @ error_message rt (status rt (trace w')) line"
      by blast
    have split: "take (Suc k) ops = take k ops @ [ops ! k]"
      using k by (simp add: take_Suc_conv_app_nth)
    have iss: "issued w (s w) = map event_of (take k ops) @ [event_of (ops ! k)]"
      using Exits tr split by (simp add: issued_def)
    have "\<not> is_launch (map event_of ops ! k)"
      using k line by (simp add: is_launch_event_of)
    then have "launch_checked (take (Suc k) (map event_of ops))"
      using lc k by (intro launch_checked_take) simp_all
    then have lc': "launch_checked (issued w (s w))"
      unfolding iss using split by (simp add: take_map)
    have tr': "trace w' = trace w @ map event_of (take k ops) @ [event_of (ops ! k)]"
      using tr split by simp
    have "statuses rt (trace w @ map event_of (take k ops)) [event_of (ops ! k)]
            = [status rt (trace w')]"
      unfolding statuses_event_of tr' using line by simp
    then have sts: "statuses rt (trace w) (issued w (s w))
                 = statuses rt (trace w) (map event_of (take k ops)) @ [status rt (trace w')]"
      unfolding iss statuses_append by simp
    have "line \<in> check_lines" using lines k line by (meson nth_mem)
    with lc' c ok bad err show ?thesis
      unfolding sts using Exits by auto
  next
    case Undefined_behaviour
    then show ?thesis using seq_defined [of rt ops w] s by simp
  qed
qed

text \<open>
  Claim C7. Every routine of ops.cu follows the error policy \<open>fatal_on_failure\<close>: each
  launch is followed by a check of cudaPeekAtLastError and each cudaMemset is checked;
  the first status that is not cudaSuccess makes the process print
  \<open>Error <description> at line <L> in file <F>\<close> and a newline on stderr and exit with
  status 1; a call that returns has seen no failure and printed nothing, and it hands no
  status to its caller (\<open>Returns\<close> carries the world only).
\<close>

theorem runtime_failure_is_fatal:
  fixes rt :: "'v::{zero,ord} runtime"
  shows "fatal_on_failure rt (histogramScatterAdd2D rt histogram index1 index2 src maxidx1 n)
    \<and> fatal_on_failure rt (estimateQuantiles rt T A code offset n)
    \<and> fatal_on_failure rt (quantize rt code A out n)
    \<and> fatal_on_failure rt (dequantize rt code A out n)
    \<and> fatal_on_failure rt (quantizeBlockwise rt T STOCHASTIC code A absmax out rand rand_offset n)
    \<and> (\<not> div_undefined n blocksize \<longrightarrow>
         fatal_on_failure rt (dequantizeBlockwise rt T code A absmax out blocksize n))
    \<and> fatal_on_failure rt
         (optimizer32bit rt T OPTIMIZER g p state1 state2 unorm max_unorm param_norm
            beta1 beta2 eps weight_decay step lr gnorm_scale skip_zeros n)
    \<and> fatal_on_failure rt
         (optimizerStatic8bit rt T OPTIMIZER p g state1 state2 unorm max_unorm param_norm
            beta1 beta2 eps step lr quantiles1 quantiles2 max1 max2 new_max1 new_max2
            weight_decay gnorm_scale n)
    \<and> fatal_on_failure rt
         (optimizerStatic8bitBlockwise rt T OPTIMIZER p g state1 state2 beta1 beta2 eps step lr
            quantiles1 quantiles2 absmax1 absmax2 weight_decay gnorm_scale skip_zeros n)
    \<and> fatal_on_failure rt (percentileClipping rt T g gnorm_vec step n)"
proof -
  have 1: "fatal_on_failure rt (histogramScatterAdd2D rt histogram index1 index2 src maxidx1 n)"
    by (rule seq_fatal_on_failure [OF histogramScatterAdd2D_normal]) (simp_all add: check_lines_def)
  have 2: "fatal_on_failure rt (estimateQuantiles rt T A code offset n)"
    by (rule seq_fatal_on_failure [OF estimateQuantiles_normal]) (simp_all add: check_lines_def)
  have 3: "fatal_on_failure rt (quantize rt code A out n)"
    by (rule seq_fatal_on_failure [OF quantize_normal]) (simp_all add: check_lines_def)
  have 4: "fatal_on_failure rt (dequantize rt code A out n)"
    by (rule seq_fatal_on_failure [OF dequantize_normal]) (simp_all add: check_lines_def)
  have 5: "fatal_on_failure rt (quantizeBlockwise rt T STOCHASTIC code A absmax out rand rand_offset n)"
    by (rule seq_fatal_on_failure [OF quantizeBlockwise_normal]) (simp_all add: check_lines_def)
  have 6: "fatal_on_failure rt (dequantizeBlockwise rt T code A absmax out blocksize n)"
    if "\<not> div_undefined n blocksize"
    by (rule seq_fatal_on_failure [OF dequantizeBlockwise_normal [OF that]])
       (simp_all add: check_lines_def)
  have 7: "fatal_on_failure rt
         (optimizer32bit rt T OPTIMIZER g p state1 state2 unorm max_unorm param_norm
            beta1 beta2 eps weight_decay step lr gnorm_scale skip_zeros n)"
    by (rule seq_fatal_on_failure [OF optimizer32bit_normal]) (auto simp: check_lines_def)
  have 8: "fatal_on_failure rt
         (optimizerStatic8bit rt T OPTIMIZER p g state1 state2 unorm max_unorm param_norm
            beta1 beta2 eps step lr quantiles1 quantiles2 max1 max2 new_max1 new_max2
            weight_decay gnorm_scale n)"
    by (rule seq_fatal_on_failure [OF optimizerStatic8bit_normal]) (auto simp: check_lines_def)
  have 9: "fatal_on_failure rt
         (optimizerStatic8bitBlockwise rt T OPTIMIZER p g state1 state2 beta1 beta2 eps step lr
            quantiles1 quantiles2 absmax1 absmax2 weight_decay gnorm_scale skip_zeros n)"
    by (rule seq_fatal_on_failure [OF optimizerStatic8bitBlockwise_normal])
       (auto simp: check_lines_def)
  have 10: "fatal_on_failure rt (percentileClipping rt T g gnorm_vec step n)"
    by (rule seq_fatal_on_failure [OF percentileClipping_normal]) (simp_all add: check_lines_def)
  from 1 2 3 4 5 6 7 8 9 10 show ?thesis by blast
qed

subsection \<open>Calls with no elements\<close>

lemma seq_clears_on_empty:
  fixes rt :: "'v::zero runtime"
  assumes s: "s = seq (map (stmt_of rt) ops)"
      and g: "grids (map event_of ops) = replicate k 0"
      and body: "dropWhile is_clear ops \<noteq> []" "checked_line (hd (dropWhile is_clear ops)) = None"
      and nc: "\<forall>op \<in> set (dropWhile is_clear ops). \<not> is_clear op"
      and noop: "empty_grid_noop rt"
  shows "clears_on_empty k (fold (mem_effect rt) (takeWhile is_clear ops) (mem w)) rt w (s w)"
proof -
  define cl where "cl = takeWhile is_clear ops"
  define bd where "bd = dropWhile is_clear ops"
  have ops: "cl @ bd = ops" by (simp add: cl_def bd_def)
  note i = seq_issued [where rt = rt and ops = ops and w = w, folded s]
  have "grids (map event_of cl) @ grids (map event_of bd) = replicate k 0"
    using g by (simp add: ops [symmetric] grids_append)
  then have "set (grids (map event_of bd)) \<subseteq> set (replicate k (0 :: c_int))"
    by (metis set_append Un_upper2)
  then have gb: "set (grids (map event_of bd)) \<subseteq> {0}" by auto
  have gt: "set (grids (map event_of (take j bd))) \<subseteq> {0}" for j
    using grids_prefix [of "map event_of (take j bd)" "map event_of bd"] gb
    by (simp add: take_is_prefix map_mono_prefix subset_iff)
  have nct: "\<forall>op \<in> set (take j bd). \<not> is_clear op" for j
    using nc unfolding bd_def [symmetric] by (auto dest: in_set_takeD)
  have e: "fold (mem_effect rt) (cl @ take j bd) m = fold (mem_effect rt) cl m" for j m
    using not_clear_effect [OF noop nct gt] by simp
  have sub: "set (grids (issued w (s w))) \<subseteq> {0}"
    using grids_prefix [OF i(1)] g by auto
  have "case s w of
        Returns w' \<Rightarrow> mem w' = fold (mem_effect rt) cl (mem w)
                        \<and> grids (issued w (s w)) = replicate k 0
      | Exits c w' \<Rightarrow>
          c = 1 \<and> (ended_at_memset (issued w (s w)) \<and> grids (issued w (s w)) = []
                   \<or> mem w' = fold (mem_effect rt) cl (mem w) \<and> grids (issued w (s w)) \<noteq> []
                      \<and> set (grids (issued w (s w))) \<subseteq> {0})
      | Undefined_behaviour \<Rightarrow> False"
    using seq_clears_then_body [OF s body, of w]
  proof (elim disjE exE conjE)
    fix w' assume r: "s w = Returns w'" "issued w (s w) = map event_of ops"
      "mem w' = fold (mem_effect rt) ops (mem w)"
    have "fold (mem_effect rt) (cl @ bd) (mem w) = fold (mem_effect rt) cl (mem w)"
      using e [of "length bd" "mem w"] by simp
    then have "mem w' = fold (mem_effect rt) cl (mem w)"
      using r(3) by (simp only: ops)
    then show ?thesis using r g by simp
  next
    fix w' assume "s w = Exits 1 w'" "ended_at_memset (issued w (s w))" "grids (issued w (s w)) = []"
    then show ?thesis by simp
  next
    fix w' j assume r: "s w = Exits 1 w'" "grids (issued w (s w)) \<noteq> []"
      "mem w' = fold (mem_effect rt) (takeWhile is_clear ops @ take j (dropWhile is_clear ops)) (mem w)"
    from r(3) have "mem w' = fold (mem_effect rt) cl (mem w)"
      unfolding cl_def [symmetric] bd_def [symmetric] by (simp only: e)
    then show ?thesis using r(1,2) sub by simp
  qed
  with i(4) show ?thesis unfolding clears_on_empty_def cl_def by blast
qed

text \<open>
  Claim C10. With \<open>n = 0\<close> every launch has an empty grid, and, given that such a launch
  does nothing, the call has still changed the memory: estimateQuantiles has cleared the
  256 cells of \<open>code\<close>, percentileClipping the cell \<open>step % 100\<close> of the history, and
  optimizerStatic8bit the cell \<open>new_max1\<close> (for ADAM also \<open>new_max2\<close>, and \<open>unorm\<close> when
  \<open>max_unorm > 0\<close>); nothing else has changed. That is the memory a call returns with,
  and also the memory at the exit when the process is ended by the check after a launch,
  as it is when the runtime refuses an empty grid; only a call ended by a failed
  cudaMemset, before any launch, is exempt. On a healthy runtime the call returns.
\<close>

theorem empty_input_still_clears:
  fixes rt :: "'v::{zero,ord} runtime"
  assumes "empty_grid_noop rt"
  shows "clears_on_empty 1 (zero_cells code 256 (mem w)) rt w
           (estimateQuantiles rt T A code offset 0 w)
    \<and> clears_on_empty 1 ((mem w)(gnorm_vec + sint (int_mod step 100) := 0)) rt w
           (percentileClipping rt T g gnorm_vec step 0 w)
    \<and> clears_on_empty 2
           ((if 0 < max_unorm then (mem w)(unorm := 0) else mem w)(new_max1 := 0, new_max2 := 0))
           rt w
           (optimizerStatic8bit rt T ADAM p g state1 state2 unorm max_unorm param_norm
              beta1 beta2 eps step lr quantiles1 quantiles2 max1 max2 new_max1 new_max2
              weight_decay gnorm_scale 0 w)
    \<and> (OPTIMIZER \<in> {MOMENTUM, RMSPROP, ADAGRAD} \<longrightarrow>
         clears_on_empty 2
           ((if 0 < max_unorm then (mem w)(unorm := 0) else mem w)(new_max1 := 0)) rt w
           (optimizerStatic8bit rt T OPTIMIZER p g state1 state2 unorm max_unorm param_norm
              beta1 beta2 eps step lr quantiles1 quantiles2 max1 max2 new_max1 new_max2
              weight_decay gnorm_scale 0 w))"
proof -
  have nb: "num_blocks 0 4096 = 0" "num_blocks 0 2048 = 0"
    by (simp_all add: num_blocks_0)
  have 1: "clears_on_empty 1 (zero_cells code 256 (mem w)) rt w
           (estimateQuantiles rt T A code offset 0 w)"
    using seq_clears_on_empty [OF estimateQuantiles_normal [of rt T A code offset 0] _ _ _ _ assms,
        where k = 1 and w = w]
    by (simp add: nb sizeof_float_def)
  have 2: "clears_on_empty 1 ((mem w)(gnorm_vec + sint (int_mod step 100) := 0)) rt w
           (percentileClipping rt T g gnorm_vec step 0 w)"
    using seq_clears_on_empty [OF percentileClipping_normal [of rt T g gnorm_vec step 0] _ _ _ _ assms,
        where k = 1 and w = w]
    by (simp add: nb sizeof_float_def zero_cells_one)
  have 3: "clears_on_empty 2
           ((if 0 < max_unorm then (mem w)(unorm := 0) else mem w)(new_max1 := 0, new_max2 := 0))
           rt w
           (optimizerStatic8bit rt T ADAM p g state1 state2 unorm max_unorm param_norm
              beta1 beta2 eps step lr quantiles1 quantiles2 max1 max2 new_max1 new_max2
              weight_decay gnorm_scale 0 w)"
  proof (cases "0 < max_unorm")
    case True
    then show ?thesis
      using seq_clears_on_empty [OF optimizerStatic8bit_normal [of rt T ADAM p g state1 state2 unorm
          max_unorm param_norm beta1 beta2 eps step lr quantiles1 quantiles2 max1 max2 new_max1
          new_max2 weight_decay gnorm_scale 0] _ _ _ _ assms, where k = 2 and w = w]
      by (simp add: nb sizeof_float_def zero_cells_one numeral_2_eq_2)
  next
    case False
    then show ?thesis
      using seq_clears_on_empty [OF optimizerStatic8bit_normal [of rt T ADAM p g state1 state2 unorm
          max_unorm param_norm beta1 beta2 eps step lr quantiles1 quantiles2 max1 max2 new_max1
          new_max2 weight_decay gnorm_scale 0] _ _ _ _ assms, where k = 2 and w = w]
      by (simp add: nb sizeof_float_def zero_cells_one numeral_2_eq_2)
  qed
  have 4: "clears_on_empty 2
           ((if 0 < max_unorm then (mem w)(unorm := 0) else mem w)(new_max1 := 0)) rt w
           (optimizerStatic8bit rt T OPTIMIZER p g state1 state2 unorm max_unorm param_norm
              beta1 beta2 eps step lr quantiles1 quantiles2 max1 max2 new_max1 new_max2
              weight_decay gnorm_scale 0 w)"
    if "OPTIMIZER \<in> {MOMENTUM, RMSPROP, ADAGRAD}"
  proof -
    from that have "OPTIMIZER \<noteq> ADAM"
      by (auto simp: ADAM_def MOMENTUM_def RMSPROP_def ADAGRAD_def)
    note h = seq_clears_on_empty [OF optimizerStatic8bit_normal [of rt T OPTIMIZER p g state1 state2 unorm
          max_unorm param_norm beta1 beta2 eps step lr quantiles1 quantiles2 max1 max2 new_max1
          new_max2 weight_decay gnorm_scale 0] _ _ _ _ assms, where k = 2 and w = w]
    show ?thesis
    proof (cases "0 < max_unorm")
      case True
      with that \<open>OPTIMIZER \<noteq> ADAM\<close> h show ?thesis
        by (simp add: nb sizeof_float_def zero_cells_one numeral_2_eq_2)
    next
      case False
      with that \<open>OPTIMIZER \<noteq> ADAM\<close> h show ?thesis
        by (simp add: nb sizeof_float_def zero_cells_one numeral_2_eq_2)
    qed
  qed
  from 1 2 3 4 show ?thesis by blast
qed

subsection \<open>The window of percentileClipping\<close>








subsection \<open>The round trip of blockwise quantization\<close>



lemma fold_max_ge:
  fixes a :: real
  shows "a \<le> fold max xs a" and "x \<in> set xs \<Longrightarrow> x \<le> fold max xs a"
proof -
  have "a \<le> fold max xs a \<and> (\<forall>x \<in> set xs. x \<le> fold max xs a)"
  proof (induction xs arbitrary: a)
    case Nil
    then show ?case by simp
  next
    case (Cons y ys)
    from Cons [of "max y a"] show ?case by auto
  qed
  then show "a \<le> fold max xs a" and "x \<in> set xs \<Longrightarrow> x \<le> fold max xs a" by blast+
qed



lemma block_absmax_nonneg: "0 \<le> block_absmax m A B n b"
  unfolding block_absmax_def by (rule fold_max_ge(1))















section \<open>Concrete runs\<close>

text \<open>The routines run on \<open>sevens\<close>, with the runtime that never fails and the one that always does.\<close>

lemmas eval_defs = Let_def CUDA_CHECK_RETURN_def cudaMemset_def cudaPeekAtLastError_def launch_def
  quiet_runtime_def failing_runtime_def sevens_def issued_def returns_def exits_with_def
  cudaSuccess_def sizeof_float_def int_div_def int_mod_def signed_divide_int_def
  signed_modulo_int_def div_undefined_def

theorem dequantizeBlockwise_dispatch_witness:
  "\<not> div_undefined 5 1000
   \<and> dequantizeBlockwise quiet_runtime Float 0 300 600 900 1000 5 sevens
       = Returns (sevens\<lparr>trace := [PeekAtLastError]\<rparr>)
   \<and> \<not> div_undefined 5000 2048
   \<and> issued sevens (dequantizeBlockwise quiet_runtime Float 0 300 600 900 2048 5000 sevens)
       = [Launch (kDequantizeBlockwise Float 2048 512 4) 3 512
            [PtrArg 0, PtrArg 300, PtrArg 600, PtrArg 900, IntArg 5000], PeekAtLastError]"
proof -
  have u: "\<not> div_undefined 5 1000" "\<not> div_undefined 5000 2048"
    by (simp_all add: div_undefined_def)
  have nb: "num_blocks 5000 2048 = 3"
    by (simp add: num_blocks_def int_div_def int_mod_def signed_divide_int_def
          signed_modulo_int_def)
  from dequantizeBlockwise_dispatch [OF u(1), of quiet_runtime Float 0 300 600 900 sevens]
    dequantizeBlockwise_dispatch [OF u(2), of quiet_runtime Float 0 300 600 900 sevens] u nb
  show ?thesis
    by (simp add: Let_def quiet_runtime_def cudaSuccess_def sevens_def)
qed

text \<open>
  The claim C3 as it was stated covers every block size other than 2048 and 4096. With
  block size 0 the first statement of dequantizeBlockwise divides by zero, so the call is
  no silent no-op; and with block size 1000 and a runtime that reports a pending error,
  the check of line 68 prints the message and ends the process although no kernel was
  launched.
\<close>

theorem dequantizeBlockwise_unsupported_counterexample:
  "(0 :: c_int) \<notin> {2048, 4096}
   \<and> dequantizeBlockwise quiet_runtime Float 0 300 600 900 0 5 sevens = Undefined_behaviour
   \<and> (1000 :: c_int) \<notin> {2048, 4096}
   \<and> dequantizeBlockwise failing_runtime Float 0 300 600 900 1000 5 sevens
       = Exits 1 (sevens\<lparr>trace := [PeekAtLastError],
            stderr := ''Error invalid configuration argument at line 68 in file ops.cu''
                       @ [CHR 0x0A]\<rparr>)"
  by (simp add: dequantizeBlockwise_def eval_defs error_message_def
        decimal.simps [of 68] decimal.simps [of 6])

theorem work_groups_are_ceiling_witness:
  "0 \<le> sint (4097 :: c_int)
   \<and> grid_is_ceiling 1 4097 1024 quiet_runtime sevens (quantize quiet_runtime 0 300 600 4097 sevens)
   \<and> grids (issued sevens (quantize quiet_runtime 0 300 600 4097 sevens)) = [5]
   \<and> grids (issued sevens (quantize failing_runtime 0 300 600 4097 sevens)) = [5]
   \<and> grid_is_ceiling 1 4097 1024 quiet_runtime sevens (dequantize quiet_runtime 0 300 600 4097 sevens)
   \<and> grids (issued sevens (dequantize quiet_runtime 0 300 600 4097 sevens)) = [5]
   \<and> \<lceil>real_of_int (sint (4097 :: c_int)) / real_of_int 1024\<rceil> = 5
   \<and> grid_is_ceiling 1 4097 4096 quiet_runtime sevens
        (quantizeBlockwise quiet_runtime Float 0 0 300 600 900 1200 0 4097 sevens)
   \<and> grids (issued sevens
        (quantizeBlockwise quiet_runtime Float 0 0 300 600 900 1200 0 4097 sevens)) = [2]
   \<and> ADAM \<in> {ADAM, MOMENTUM, RMSPROP, ADAGRAD}
   \<and> grid_is_ceiling 2 4097 4096 quiet_runtime sevens
        (optimizer32bit quiet_runtime Float ADAM 100 200 300 400 4 1 1 0.9 0.999 0.01 0 1 0.001 1
           False 4097 sevens)
   \<and> grids (issued sevens
        (optimizer32bit quiet_runtime Float ADAM 100 200 300 400 4 1 1 0.9 0.999 0.01 0 1 0.001 1
           False 4097 sevens)) = [2, 2]
   \<and> \<lceil>real_of_int (sint (4097 :: c_int)) / real_of_int 4096\<rceil> = 2
   \<and> grid_is_ceiling 1 4097 2048 quiet_runtime sevens
        (percentileClipping quiet_runtime Float 1000 100 205 4097 sevens)
   \<and> grids (issued sevens (percentileClipping quiet_runtime Float 1000 100 205 4097 sevens)) = [3]
   \<and> \<lceil>real_of_int (sint (4097 :: c_int)) / real_of_int 2048\<rceil> = 3"
proof -
  have n: "0 \<le> sint (4097 :: c_int)" by simp
  have k: "ADAM \<in> {ADAM, MOMENTUM, RMSPROP, ADAGRAD}" by simp
  have g1: "grids (issued sevens (quantize quiet_runtime 0 300 600 4097 sevens)) = [5]"
    "grids (issued sevens (quantize failing_runtime 0 300 600 4097 sevens)) = [5]"
    "grids (issued sevens (dequantize quiet_runtime 0 300 600 4097 sevens)) = [5]"
    by (simp_all add: quantize_def dequantize_def eval_defs)
  have g2: "grids (issued sevens
        (quantizeBlockwise quiet_runtime Float 0 0 300 600 900 1200 0 4097 sevens)) = [2]"
    by (simp add: quantizeBlockwise_def eval_defs)
  have g3: "grids (issued sevens
        (optimizer32bit quiet_runtime Float ADAM 100 200 300 400 4 1 1 0.9 0.999 0.01 0 1 0.001 1
           False 4097 sevens)) = [2, 2]"
    by (simp add: optimizer32bit_def eval_defs)
  have g4: "grids (issued sevens (percentileClipping quiet_runtime Float 1000 100 205 4097 sevens))
              = [3]"
    by (simp add: percentileClipping_def eval_defs)
  have c: "\<lceil>real_of_int (sint (4097 :: c_int)) / real_of_int 1024\<rceil> = 5"
    "\<lceil>real_of_int (sint (4097 :: c_int)) / real_of_int 4096\<rceil> = 2"
    "\<lceil>real_of_int (sint (4097 :: c_int)) / real_of_int 2048\<rceil> = 3"
    by (simp_all add: ceiling_divide_eq_div del: of_int_sint)
  note t = work_groups_are_ceiling [OF n, where rt = quiet_runtime and w = sevens and T = Float
      and STOCHASTIC = 0 and code = 0 and A = 300 and absmax = 600 and out = 600 and rand = 1200
      and rand_offset = 0 and OPTIMIZER = ADAM and g = 100 and p = 200 and ?state1.0 = 300
      and ?state2.0 = 400 and unorm = 4 and max_unorm = 1 and param_norm = 1 and ?beta1.0 = "0.9"
      and ?beta2.0 = "0.999" and eps = "0.01" and weight_decay = 0 and step = 1 and lr = "0.001"
      and gnorm_scale = 1 and skip_zeros = False and gnorm_vec = 100]
  note u = work_groups_are_ceiling [OF n, where rt = quiet_runtime and w = sevens and T = Float
      and STOCHASTIC = 0 and code = 0 and A = 300 and absmax = 600 and out = 900 and rand = 1200
      and rand_offset = 0 and g = 1000 and gnorm_vec = 100 and step = 205]
  have q: "grid_is_ceiling 1 4097 1024 quiet_runtime sevens (quantize quiet_runtime 0 300 600 4097 sevens)"
    "grid_is_ceiling 1 4097 1024 quiet_runtime sevens (dequantize quiet_runtime 0 300 600 4097 sevens)"
    using t by simp_all
  have o: "grid_is_ceiling 2 4097 4096 quiet_runtime sevens
        (optimizer32bit quiet_runtime Float ADAM 100 200 300 400 4 1 1 0.9 0.999 0.01 0 1 0.001 1
           False 4097 sevens)"
    using t k by simp
  have b: "grid_is_ceiling 1 4097 4096 quiet_runtime sevens
        (quantizeBlockwise quiet_runtime Float 0 0 300 600 900 1200 0 4097 sevens)"
    "grid_is_ceiling 1 4097 2048 quiet_runtime sevens
        (percentileClipping quiet_runtime Float 1000 100 205 4097 sevens)"
    using u by simp_all
  from n k g1 g2 g3 g4 c q o b show ?thesis by simp
qed

theorem runtime_failure_is_fatal_witness:
  "fatal_on_failure failing_runtime (quantize failing_runtime 0 300 600 5000)
   \<and> quantize failing_runtime 0 300 600 5000 sevens
       = Exits 1 (sevens\<lparr>trace := [Launch kQuantize 5 1024
                                       [PtrArg 0, PtrArg 300, PtrArg 600, IntArg 5000],
                                     PeekAtLastError],
            stderr := ''Error invalid configuration argument at line 41 in file ops.cu''
                       @ [CHR 0x0A]\<rparr>)
   \<and> fatal_on_failure quiet_runtime (quantize quiet_runtime 0 300 600 5000)
   \<and> returns (quantize quiet_runtime 0 300 600 5000 sevens)"
proof -
  have e: "quantize failing_runtime 0 300 600 5000 sevens
       = Exits 1 (sevens\<lparr>trace := [Launch kQuantize 5 1024
                                       [PtrArg 0, PtrArg 300, PtrArg 600, IntArg 5000],
                                     PeekAtLastError],
            stderr := ''Error invalid configuration argument at line 41 in file ops.cu''
                       @ [CHR 0x0A]\<rparr>)"
    by (simp add: quantize_def eval_defs error_message_def
          decimal.simps [of 41] decimal.simps [of 4])
  have r: "returns (quantize quiet_runtime 0 300 600 5000 sevens)"
    by (simp add: quantize_def eval_defs)
  from runtime_failure_is_fatal [where rt = failing_runtime and code = 0 and A = 300
      and out = 600 and n = 5000]
    runtime_failure_is_fatal [where rt = quiet_runtime and code = 0 and A = 300
      and out = 600 and n = 5000] e r
  show ?thesis by simp
qed

theorem empty_input_still_clears_witness:
  "empty_grid_noop strict_runtime
   \<and> clears_on_empty 1 ((mem sevens)(105 := 0)) strict_runtime sevens
        (percentileClipping strict_runtime Float 1000 100 205 0 sevens)
   \<and> percentileClipping strict_runtime Float 1000 100 205 0 sevens
       = Exits 1 (sevens\<lparr>mem := (mem sevens)(105 := 0),
            trace := [Memset 105 4,
                      Launch (kPercentileClipping Float 2048 4) 0 512
                        [PtrArg 1000, PtrArg 100, IntArg 205, IntArg 0],
                      PeekAtLastError],
            stderr := ''Error invalid configuration argument at line 188 in file ops.cu''
                       @ [CHR 0x0A]\<rparr>)
   \<and> empty_grid_noop quiet_runtime
   \<and> clears_on_empty 1 (zero_cells 300 256 (mem sevens)) quiet_runtime sevens
        (estimateQuantiles quiet_runtime Float 1000 300 (1 / 2) 0 sevens)
   \<and> estimateQuantiles quiet_runtime Float 1000 300 (1 / 2) 0 sevens
       = Returns (sevens\<lparr>mem := zero_cells 300 256 (mem sevens),
            trace := [Memset 300 1024,
                      Launch (kEstimateQuantiles Float) 0 512
                        [PtrArg 1000, PtrArg 300, FltArg (1 / 2), NumericLimitsMax Float,
                         IntArg 0],
                      PeekAtLastError]\<rparr>)
   \<and> zero_cells 300 256 (mem sevens) 300 = 0 \<and> mem sevens 300 = 7
   \<and> clears_on_empty 2 ((mem sevens)(4 := 0, 12 := 0, 13 := 0)) quiet_runtime sevens
        (optimizerStatic8bit quiet_runtime Float ADAM 100 200 300 400 4 1 1 0.9 0.999 0.01 1 0.001
           500 600 10 11 12 13 0 1 0 sevens)
   \<and> mem_after (optimizerStatic8bit quiet_runtime Float ADAM 100 200 300 400 4 1 1 0.9 0.999 0.01
           1 0.001 500 600 10 11 12 13 0 1 0 sevens) 12 = Some 0
   \<and> grids (issued sevens (optimizerStatic8bit strict_runtime Float ADAM 100 200 300 400 4 1 1
           0.9 0.999 0.01 1 0.001 500 600 10 11 12 13 0 1 0 sevens)) = [0]
   \<and> exits_with 1 (optimizerStatic8bit strict_runtime Float ADAM 100 200 300 400 4 1 1
           0.9 0.999 0.01 1 0.001 500 600 10 11 12 13 0 1 0 sevens)"
proof -
  have q: "empty_grid_noop strict_runtime" "empty_grid_noop quiet_runtime"
    by (simp_all add: empty_grid_noop_def strict_runtime_def quiet_runtime_def)
  have p: "percentileClipping strict_runtime Float 1000 100 205 0 sevens
       = Exits 1 (sevens\<lparr>mem := (mem sevens)(105 := 0),
            trace := [Memset 105 4,
                      Launch (kPercentileClipping Float 2048 4) 0 512
                        [PtrArg 1000, PtrArg 100, IntArg 205, IntArg 0],
                      PeekAtLastError],
            stderr := ''Error invalid configuration argument at line 188 in file ops.cu''
                       @ [CHR 0x0A]\<rparr>)"
    by (simp add: percentileClipping_def strict_runtime_def eval_defs error_message_def
          zero_cells_one decimal.simps [of 188] decimal.simps [of 18] decimal.simps [of 1]
          decimal.simps [of "Suc 0"])
  have e: "estimateQuantiles quiet_runtime Float 1000 300 (1 / 2) 0 sevens
       = Returns (sevens\<lparr>mem := zero_cells 300 256 (mem sevens),
            trace := [Memset 300 1024,
                      Launch (kEstimateQuantiles Float) 0 512
                        [PtrArg 1000, PtrArg 300, FltArg (1 / 2), NumericLimitsMax Float,
                         IntArg 0],
                      PeekAtLastError]\<rparr>)"
    by (simp add: estimateQuantiles_def eval_defs)
  have z: "zero_cells 300 256 (mem sevens) 300 = 0" "mem sevens 300 = 7"
    by (simp_all add: zero_cells_def sevens_def)
  have o: "mem_after (optimizerStatic8bit quiet_runtime Float ADAM 100 200 300 400 4 1 1 0.9 0.999
           0.01 1 0.001 500 600 10 11 12 13 0 1 0 sevens) 12 = Some 0"
    "grids (issued sevens (optimizerStatic8bit strict_runtime Float ADAM 100 200 300 400 4 1 1
           0.9 0.999 0.01 1 0.001 500 600 10 11 12 13 0 1 0 sevens)) = [0]"
    "exits_with 1 (optimizerStatic8bit strict_runtime Float ADAM 100 200 300 400 4 1 1
           0.9 0.999 0.01 1 0.001 500 600 10 11 12 13 0 1 0 sevens)"
    by (simp_all add: optimizerStatic8bit_def strict_runtime_def eval_defs mem_after_def
          zero_cells_def)
  have s: "sint (int_mod 205 100) = 5"
    by (simp add: int_mod_def signed_modulo_int_def)
  note t1 = empty_input_still_clears [OF q(1), where w = sevens and T = Float and g = 1000
      and gnorm_vec = 100 and step = 205]
  note t2 = empty_input_still_clears [OF q(2), where w = sevens and T = Float and A = 1000
      and code = 300 and offset = "1 / 2" and p = 100 and g = 200 and ?state1.0 = 300
      and ?state2.0 = 400 and unorm = 4 and max_unorm = 1 and param_norm = 1 and ?beta1.0 = "0.9"
      and ?beta2.0 = "0.999" and eps = "0.01" and step = 1 and lr = "0.001"
      and ?quantiles1.0 = 500 and ?quantiles2.0 = 600 and ?max1.0 = 10 and ?max2.0 = 11
      and ?new_max1.0 = 12 and ?new_max2.0 = 13 and weight_decay = 0 and gnorm_scale = 1]
  have c1: "clears_on_empty 1 ((mem sevens)(105 := 0)) strict_runtime sevens
        (percentileClipping strict_runtime Float 1000 100 205 0 sevens)"
    using t1 by (simp add: s)
  have c2: "clears_on_empty 1 (zero_cells 300 256 (mem sevens)) quiet_runtime sevens
        (estimateQuantiles quiet_runtime Float 1000 300 (1 / 2) 0 sevens)"
    "clears_on_empty 2 ((mem sevens)(4 := 0, 12 := 0, 13 := 0)) quiet_runtime sevens
        (optimizerStatic8bit quiet_runtime Float ADAM 100 200 300 400 4 1 1 0.9 0.999 0.01 1 0.001
           500 600 10 11 12 13 0 1 0 sevens)"
    using t2 by simp_all
  from q p e z o c1 c2 show ?thesis by simp
qed


















end
